theory Spec2Isabelle
  imports Main
begin

section \<open>Data model\<close>

text \<open>
  The program is the start-up code of a command-line VPN client: \<^verbatim>\<open>cmd/gof5/main.go\<close>
  (argument parsing, credential resolution, PID marker, daemon launch) and
  \<^verbatim>\<open>pkg/config/config.go\<close> (the configuration resolver \<^verbatim>\<open>ReadConfig\<close>).
  Strings are byte lists. Everything the code does to its surroundings is explicit: the
  mutable surroundings are a \<open>world\<close> that every operation takes and returns, and the
  answers of the operating system and of the packages the code calls are the fields of a
  fixed \<open>sys\<close>.
\<close>

text \<open>\<^verbatim>\<open>os/user.User\<close>, the fields the code reads.\<close>

record user =
  Uid :: string
  Gid :: string
  Username :: string
  HomeDir :: string

text \<open>
  Modelled from the spec: the declaration of \<^verbatim>\<open>config.Config\<close> is in a file of the
  package that is not among the sources. "Config -- persisted/resolved settings:
  transport driver identifier, DNS listener address, resolved configuration directory
  path, resolved cookie-storage directory path, resolved numeric owner (user id, group
  id), debug flag"; these are also the fields that \<^verbatim>\<open>ReadConfig\<close> assigns.
  \<open>ListenDNS\<close> is a \<^verbatim>\<open>net.IP\<close>, a byte slice: \<open>None\<close> is the nil slice.
  \<open>Daemon\<close> is the setting behind \<^verbatim>\<open>opts.Daemon\<close>: no command-line flag assigns it,
  \<^verbatim>\<open>main\<close> reads the configuration "so we can check the daemon flag" and copies it
  into the options with \<^verbatim>\<open>opts.Config = *cfg\<close>.
\<close>

type_synonym ip = "nat list"

record Config =
  Driver :: string
  ListenDNS :: "ip option"
  Daemon :: bool
  Path :: string
  CookiePath :: string
  Uid :: int
  Gid :: int
  Debug :: bool

text \<open>
  Modelled from the spec: the declaration of \<^verbatim>\<open>client.Options\<close> is in a package that
  is not among the sources. "Options -- the resolved invocation record: server address,
  username, password, session identifier, TLS material paths, configuration-file path,
  flags, profile index, and an embedded Config"; these are the fields that \<^verbatim>\<open>main\<close>
  binds to its flags.
\<close>

record Options =
  Server :: string
  Username :: string
  Password :: string
  SessionID :: string
  CACert :: string
  Cert :: string
  Key :: string
  ConfigPath :: string
  CloseSession :: bool
  Debug :: bool
  Sel :: bool
  ProfileIndex :: int
  Config :: Config

text \<open>
  Errors are values, one constructor for each \<^verbatim>\<open>fmt.Errorf\<close> of the two files, carrying
  the arguments of its format string. A \<open>string\<close> argument named \<open>cause\<close> below is the
  text of the error a library call returned.
\<close>

datatype error =
    ProfileIndexNegative
      \<comment> \<open>profile-index cannot be negative\<close>
  | PermissionsFailed string
      \<comment> \<open>the error of checkPermissions\<close>
  | UrlHandlerFailed string
      \<comment> \<open>the error of client.UrlHandlerF5Vpn\<close>
  | PasswordFileUnreadable string
      \<comment> \<open>failed to read password file: cause\<close>
  | CurrentUserFailed string
      \<comment> \<open>failed to get current user: cause\<close>
  | PIDDirFailed string
      \<comment> \<open>failed to create PID directory: cause\<close>
  | PIDWriteFailed string
      \<comment> \<open>failed to write PID file: cause\<close>
  | PasswordRequired
      \<comment> \<open>password is required for daemon mode; use --password, --password-file, or
          GOF5_PASSWORD environment variable\<close>
  | DaemonOnWindows
      \<comment> \<open>daemon mode is not supported on Windows\<close>
  | LogDirFailed string
      \<comment> \<open>failed to create log directory: cause\<close>
  | LogFileFailed string
      \<comment> \<open>failed to open log file: cause\<close>
  | DaemonStartFailed string
      \<comment> \<open>failed to start daemon process: cause\<close>
  | ConnectFailed string
      \<comment> \<open>the error of client.Connect\<close>
  | LookupNameFailed string
      \<comment> \<open>failed to lookup user name: cause\<close>
  | DetectHomeFailed string
      \<comment> \<open>failed to detect home directory: cause\<close>
  | UidNotInteger string string
      \<comment> \<open>failed to convert (usr.Uid) UID to integer: cause\<close>
  | GidNotInteger string string
      \<comment> \<open>failed to convert (usr.Uid) GID to integer: cause\<close>
  | CreateDirFailed string string string
      \<comment> \<open>failed to create (path) (config / cookie) directory: cause\<close>
  | ChownFailed string string string
      \<comment> \<open>failed to set an owner for the (path) (config / cookie) directory: cause\<close>
  | StatFailed string string
      \<comment> \<open>failed to get (path) directory stat: cause\<close>
  | ParseFailed string string
      \<comment> \<open>cannot parse (file) file: cause\<close>
  | WinTunFailed string
      \<comment> \<open>the error of checkWinTunDriver\<close>
  | PppdOnWindows
      \<comment> \<open>pppd driver is not supported in Windows\<close>
  | UnsupportedDriver string "string list"
      \<comment> \<open>(driver) driver is unsupported, supported drivers are: (supportedDrivers)\<close>

text \<open>What a call leaves behind: it returns a value, returns an error, or panics on a
  nil \<^verbatim>\<open>*user.User\<close>.\<close>

datatype 'a res = Return 'a | Fail error | NilPanic

text \<open>The lines the code writes to the log.\<close>

datatype logline =
    LookupIdFailed string
      \<comment> \<open>failed to lookup user ID: cause\<close>
  | CreatingDir string
      \<comment> \<open>(path) directory doesn't exist, creating...\<close>
  | CannotReadConfig string
      \<comment> \<open>Cannot read config file: cause\<close>
  | WarnRemovePID string
      \<comment> \<open>Warning: failed to remove PID file: cause\<close>
  | WarnRemovePasswordFile string
      \<comment> \<open>Warning: failed to remove password file: cause\<close>
  | WarnRewritePID error
      \<comment> \<open>Warning: failed to rewrite PID file: error\<close>
  | FatalLine error
      \<comment> \<open>log.Fatal(err)\<close>
  | PressEnter error
      \<comment> \<open>(err), press enter to exit\<close>

text \<open>A process started with \<^verbatim>\<open>exec.Command(os.Args[0], os.Args[1:]...)\<close>: its
  arguments, the environment it inherits, and the file its standard error is bound to.\<close>

record proc =
  proc_args :: "string list"
  proc_env :: "string \<rightharpoonup> string"
  proc_stderr :: string

datatype event =
    Logged logline
  | PrintedInfo
  | ReadStdin
  | SetOutput string
  | Dup2 string
  | Connected Options

datatype node = File string | Directory

text \<open>The mutable surroundings: the environment of the process, the file system with
  the owners that \<^verbatim>\<open>os.Chown\<close> has set, the processes started, and what the process
  has written and called so far, oldest first.\<close>

record world =
  environ :: "string \<rightharpoonup> string"
  fs :: "string \<rightharpoonup> node"
  owner :: "string \<rightharpoonup> int \<times> int"
  children :: "proc list"
  trace :: "event list"

datatype fsop = OpStat | OpMkdirAll | OpChown | OpReadFile | OpWriteFile | OpRemove | OpOpenFile

text \<open>
  The surroundings that do not change during a run. \<open>fault op path = Some cause\<close> makes
  that file operation fail on that path with that cause (a permission, a full disk).
  The library functions whose results depend on the platform (\<^verbatim>\<open>filepath.Join\<close>,
  \<^verbatim>\<open>filepath.Dir\<close>, \<^verbatim>\<open>strconv.Atoi\<close>, the integer parser of package flag,
  \<^verbatim>\<open>yaml.Unmarshal\<close> into an empty Config) and the functions of this program that live
  outside the two files (\<^verbatim>\<open>checkPermissions\<close>, \<^verbatim>\<open>checkWinTunDriver\<close>,
  \<^verbatim>\<open>client.UrlHandlerF5Vpn\<close>, \<^verbatim>\<open>client.Connect\<close>) are parameters:
  \<open>Inl cause\<close> or \<open>Some cause\<close> is the error they return.
\<close>

record sys =
  GOOS :: string
  Geteuid :: int
  Getpid :: nat
  Args :: "string list"
  fault :: "fsop \<Rightarrow> string \<Rightarrow> string option"
  LookupId :: "string \<Rightarrow> string + user"
  Lookup :: "string \<Rightarrow> string + user"
  Current :: "string + user"
  Atoi :: "string \<Rightarrow> string + int"
  ParseInt :: "string \<Rightarrow> int option"
  Join :: "string list \<Rightarrow> string"
  Dir :: "string \<Rightarrow> string"
  Unmarshal :: "string \<Rightarrow> string + Config"
  checkWinTunDriver :: "string option"
  checkPermissions :: "string option"
  UrlHandlerF5Vpn :: "Options \<Rightarrow> string \<Rightarrow> string + Options"
  Connect :: "Options \<Rightarrow> string option"
  Start :: "string option"

section \<open>Operating system calls\<close>

text \<open>\<^verbatim>\<open>os.Getenv\<close> returns the empty string for a variable that is not set.\<close>

definition Getenv :: "world \<Rightarrow> string \<Rightarrow> string" where
  "Getenv w k = (case environ w k of None \<Rightarrow> '''' | Some v \<Rightarrow> v)"

definition Setenv :: "world \<Rightarrow> string \<Rightarrow> string \<Rightarrow> world" where
  "Setenv w k v = w\<lparr>environ := (environ w)(k \<mapsto> v)\<rparr>"

definition emit :: "world \<Rightarrow> event \<Rightarrow> world" where
  "emit w e = w\<lparr>trace := trace w @ [e]\<rparr>"

definition Printf :: "world \<Rightarrow> logline \<Rightarrow> world" where
  "Printf w l = emit w (Logged l)"

datatype stat = Exists | NotExist | StatError string

definition Stat :: "sys \<Rightarrow> world \<Rightarrow> string \<Rightarrow> stat" where
  "Stat s w p =
     (case fault s OpStat p of
        Some cause \<Rightarrow> StatError cause
      | None \<Rightarrow> (case fs w p of None \<Rightarrow> NotExist | Some n \<Rightarrow> Exists))"

text \<open>Parent directories are not tracked: \<^verbatim>\<open>os.MkdirAll\<close> makes the path a directory.\<close>

definition MkdirAll :: "sys \<Rightarrow> world \<Rightarrow> string \<Rightarrow> world \<times> string option" where
  "MkdirAll s w p =
     (case fault s OpMkdirAll p of
        Some cause \<Rightarrow> (w, Some cause)
      | None \<Rightarrow>
          (case fs w p of
             None \<Rightarrow> (w\<lparr>fs := (fs w)(p \<mapsto> Directory)\<rparr>, None)
           | Some Directory \<Rightarrow> (w, None)
           | Some (File d) \<Rightarrow> (w, Some ''not a directory'')))"

definition Chown :: "sys \<Rightarrow> world \<Rightarrow> string \<Rightarrow> int \<Rightarrow> int \<Rightarrow> world \<times> string option" where
  "Chown s w p uid gid =
     (case fault s OpChown p of
        Some cause \<Rightarrow> (w, Some cause)
      | None \<Rightarrow>
          (case fs w p of
             None \<Rightarrow> (w, Some ''no such file or directory'')
           | Some n \<Rightarrow> (w\<lparr>owner := (owner w)(p \<mapsto> (uid, gid))\<rparr>, None)))"

definition ReadFile :: "sys \<Rightarrow> world \<Rightarrow> string \<Rightarrow> string + string" where
  "ReadFile s w p =
     (case fault s OpReadFile p of
        Some cause \<Rightarrow> Inl cause
      | None \<Rightarrow>
          (case fs w p of
             None \<Rightarrow> Inl ''no such file or directory''
           | Some Directory \<Rightarrow> Inl ''is a directory''
           | Some (File d) \<Rightarrow> Inr d))"

definition WriteFile :: "sys \<Rightarrow> world \<Rightarrow> string \<Rightarrow> string \<Rightarrow> world \<times> string option" where
  "WriteFile s w p d =
     (case fault s OpWriteFile p of
        Some cause \<Rightarrow> (w, Some cause)
      | None \<Rightarrow>
          (case fs w p of
             Some Directory \<Rightarrow> (w, Some ''is a directory'')
           | Some (File old) \<Rightarrow> (w\<lparr>fs := (fs w)(p \<mapsto> File d)\<rparr>, None)
           | None \<Rightarrow> (w\<lparr>fs := (fs w)(p \<mapsto> File d)\<rparr>, None)))"

definition Remove :: "sys \<Rightarrow> world \<Rightarrow> string \<Rightarrow> world \<times> string option" where
  "Remove s w p =
     (case fault s OpRemove p of
        Some cause \<Rightarrow> (w, Some cause)
      | None \<Rightarrow>
          (case fs w p of
             None \<Rightarrow> (w, Some ''no such file or directory'')
           | Some n \<Rightarrow> (w\<lparr>fs := (fs w)(p := None)\<rparr>, None)))"

text \<open>\<^verbatim>\<open>os.OpenFile\<close> with \<^verbatim>\<open>O_CREATE|O_WRONLY|O_APPEND\<close>: the handle is the path.\<close>

definition OpenFile :: "sys \<Rightarrow> world \<Rightarrow> string \<Rightarrow> world \<times> (string + string)" where
  "OpenFile s w p =
     (case fault s OpOpenFile p of
        Some cause \<Rightarrow> (w, Inl cause)
      | None \<Rightarrow>
          (case fs w p of
             Some Directory \<Rightarrow> (w, Inl ''is a directory'')
           | Some (File d) \<Rightarrow> (w, Inr p)
           | None \<Rightarrow> (w\<lparr>fs := (fs w)(p \<mapsto> File [])\<rparr>, Inr p)))"

section \<open>The configuration resolver (pkg/config/config.go)\<close>

definition configDir :: string where
  "configDir = ''.gof5''"

definition configName :: string where
  "configName = ''config.yaml''"

definition defaultDNSListenAddr :: ip where
  "defaultDNSListenAddr = [127, 0, 0, 0xf5]"

definition defaultBSDDNSListenAddr :: ip where
  "defaultBSDDNSListenAddr = [127, 0, 0, 1]"

definition supportedDrivers :: "string list" where
  "supportedDrivers = [''wireguard'', ''pppd'']"

text \<open>Modelled from the spec: \<^verbatim>\<open>util.StrSliceContains\<close> is in a package outside the
  sources at hand; "Driver must be one of the fixed supported set".\<close>

definition StrSliceContains :: "string list \<Rightarrow> string \<Rightarrow> bool" where
  "StrSliceContains xs x = List.member xs x"

text \<open>Sequencing: an error or a panic ends the function with the world as it is then.\<close>

definition bind :: "world \<times> 'a res \<Rightarrow> (world \<Rightarrow> 'a \<Rightarrow> world \<times> 'b res) \<Rightarrow> world \<times> 'b res" where
  "bind m f =
     (case m of
        (w, Return x) \<Rightarrow> f w x
      | (w, Fail e) \<Rightarrow> (w, Fail e)
      | (w, NilPanic) \<Rightarrow> (w, NilPanic))"

text \<open>Reading a field of \<^verbatim>\<open>usr\<close>, a \<^verbatim>\<open>*user.User\<close> that may be nil.\<close>

definition deref :: "world \<Rightarrow> user option \<Rightarrow> world \<times> user res" where
  "deref w usr = (case usr of None \<Rightarrow> (w, NilPanic) | Some u \<Rightarrow> (w, Return u))"

text \<open>
  Lines 35 to 53, "resolve sudo user ID". \<^verbatim>\<open>user.LookupId\<close> and \<^verbatim>\<open>user.Lookup\<close>
  return a nil user with their error, so after a failed id lookup with no
  \<^verbatim>\<open>SUDO_USER\<close> the variable \<^verbatim>\<open>usr\<close> is nil and the function goes on.
\<close>

definition resolve_user :: "sys \<Rightarrow> world \<Rightarrow> world \<times> user option res" where
  "resolve_user s w =
     (let sudoUID = Getenv w ''SUDO_UID'' in
      if Geteuid s = 0 \<and> sudoUID \<noteq> '''' then
        (case LookupId s sudoUID of
           Inr u \<Rightarrow> (w, Return (Some u))
         | Inl cause \<Rightarrow>
             (let w1 = Printf w (LookupIdFailed cause);
                  sudoUser = Getenv w1 ''SUDO_USER'' in
              if sudoUser \<noteq> '''' then
                (case Lookup s sudoUser of
                   Inr u \<Rightarrow> (w1, Return (Some u))
                 | Inl cause' \<Rightarrow> (w1, Fail (LookupNameFailed cause')))
              else (w1, Return None)))
      else
        (case Current s of
           Inr u \<Rightarrow> (w, Return (Some u))
         | Inl cause \<Rightarrow> (w, Fail (DetectHomeFailed cause))))"

text \<open>Lines 55 to 66: the configuration directory and file.\<close>

definition config_paths :: "sys \<Rightarrow> user option \<Rightarrow> string \<Rightarrow> world \<Rightarrow> world \<times> (string \<times> string) res" where
  "config_paths s usr customConfigPath w =
     (if customConfigPath \<noteq> '''' then
        (w, Return (Dir s customConfigPath, customConfigPath))
      else
        bind (deref w usr) (\<lambda>w u.
          let configPath = Join s [HomeDir u, configDir] in
          (w, Return (configPath, Join s [configPath, configName]))))"

text \<open>Lines 68 to 79: the numeric owner; the GID message prints \<^verbatim>\<open>usr.Uid\<close>, as the
  code does.\<close>

definition owner_ids :: "sys \<Rightarrow> user option \<Rightarrow> world \<Rightarrow> world \<times> (int \<times> int) res" where
  "owner_ids s usr w =
     (if GOOS s \<noteq> ''windows'' then
        bind (deref w usr) (\<lambda>w u.
          case Atoi s (user.Uid u) of
            Inl cause \<Rightarrow> (w, Fail (UidNotInteger (user.Uid u) cause))
          | Inr uid \<Rightarrow>
              (case Atoi s (user.Gid u) of
                 Inl cause \<Rightarrow> (w, Fail (GidNotInteger (user.Uid u) cause))
               | Inr gid \<Rightarrow> (w, Return (uid, gid))))
      else (w, Return (0, 0)))"

text \<open>
  Lines 81 to 94 for the configuration directory (\<open>kind = ''config''\<close>) and lines 142 to
  154 for the cookie directory (\<open>kind = ''cookie''\<close>): the same statements, with the
  other word in the two messages.
\<close>

definition ensure_dir :: "sys \<Rightarrow> string \<Rightarrow> string \<Rightarrow> int \<Rightarrow> int \<Rightarrow> world \<Rightarrow> world \<times> unit res" where
  "ensure_dir s kind path uid gid w =
     (case Stat s w path of
        NotExist \<Rightarrow>
          (let w1 = Printf w (CreatingDir path) in
           case MkdirAll s w1 path of
             (w2, Some cause) \<Rightarrow> (w2, Fail (CreateDirFailed path kind cause))
           | (w2, None) \<Rightarrow>
               if GOOS s \<noteq> ''windows'' then
                 (case Chown s w2 path uid gid of
                    (w3, Some cause) \<Rightarrow> (w3, Fail (ChownFailed path kind cause))
                  | (w3, None) \<Rightarrow> (w3, Return ()))
               else (w2, Return ()))
      | StatError cause \<Rightarrow> (w, Fail (StatFailed path cause))
      | Exists \<Rightarrow> (w, Return ()))"

definition emptyConfig :: Config where
  "emptyConfig =
     \<lparr>Driver = '''', ListenDNS = None, Daemon = False, Path = '''', CookiePath = '''',
      Uid = 0, Gid = 0, Debug = False\<rparr>"

text \<open>Lines 96 to 105: a file that cannot be read is logged and the empty Config kept.\<close>

definition load_document :: "sys \<Rightarrow> string \<Rightarrow> world \<Rightarrow> world \<times> Config res" where
  "load_document s configFile w =
     (case ReadFile s w configFile of
        Inr raw \<Rightarrow>
          (case Unmarshal s raw of
             Inl cause \<Rightarrow> (w, Fail (ParseFailed configFile cause))
           | Inr cfg \<Rightarrow> (w, Return cfg))
      | Inl cause \<Rightarrow> (Printf w (CannotReadConfig cause), Return emptyConfig))"

text \<open>Lines 107 to 134: the default driver, the checks of the driver, the default
  DNS listener address.\<close>

definition validate :: "sys \<Rightarrow> Config \<Rightarrow> world \<Rightarrow> world \<times> Config res" where
  "validate s cfg0 w =
     (let cfg = (if Driver cfg0 = '''' then cfg0\<lparr>Driver := ''wireguard''\<rparr> else cfg0) in
      case (if Driver cfg = ''wireguard'' then checkWinTunDriver s else None) of
        Some cause \<Rightarrow> (w, Fail (WinTunFailed cause))
      | None \<Rightarrow>
          if Driver cfg = ''pppd'' \<and> GOOS s = ''windows'' then
            (w, Fail PppdOnWindows)
          else if \<not> StrSliceContains supportedDrivers (Driver cfg) then
            (w, Fail (UnsupportedDriver (Driver cfg) supportedDrivers))
          else if ListenDNS cfg = None then
            (if GOOS s = ''freebsd'' then
               (w, Return (cfg\<lparr>ListenDNS := Some defaultBSDDNSListenAddr\<rparr>))
             else if GOOS s = ''darwin'' then
               (w, Return (cfg\<lparr>ListenDNS := Some defaultBSDDNSListenAddr\<rparr>))
             else (w, Return (cfg\<lparr>ListenDNS := Some defaultDNSListenAddr\<rparr>)))
          else (w, Return cfg))"

text \<open>Lines 32 to 105: everything before the defaults, up to the loaded document.\<close>

definition ReadConfig_load ::
  "sys \<Rightarrow> string \<Rightarrow> world \<Rightarrow> world \<times> (user option \<times> string \<times> int \<times> int \<times> Config) res" where
  "ReadConfig_load s customConfigPath w =
     bind (resolve_user s w) (\<lambda>w usr.
     bind (config_paths s usr customConfigPath w) (\<lambda>w (configPath, configFile).
     bind (owner_ids s usr w) (\<lambda>w (uid, gid).
     bind (ensure_dir s ''config'' configPath uid gid w) (\<lambda>w u.
     bind (load_document s configFile w) (\<lambda>w cfg.
       (w, Return (usr, configPath, uid, gid, cfg)))))))"

text \<open>Lines 107 to 162: defaults, validation, the cookie directory, the derived fields.\<close>

definition ReadConfig_resolve ::
  "sys \<Rightarrow> bool \<Rightarrow> user option \<times> string \<times> int \<times> int \<times> Config \<Rightarrow> world \<Rightarrow> world \<times> Config res" where
  "ReadConfig_resolve s debug loaded w =
     (case loaded of (usr, configPath, uid, gid, cfg0) \<Rightarrow>
        bind (validate s cfg0 w) (\<lambda>w cfg.
        bind (deref w usr) (\<lambda>w u.
          let cookiePath = Join s [HomeDir u, configDir] in
          bind (if cookiePath \<noteq> configPath
                then ensure_dir s ''cookie'' cookiePath uid gid w
                else (w, Return ())) (\<lambda>w u.
            (w, Return (cfg\<lparr>Path := configPath, CookiePath := cookiePath,
                            Uid := uid, Gid := gid, Config.Debug := debug\<rparr>))))))"

definition ReadConfig :: "sys \<Rightarrow> bool \<Rightarrow> string \<Rightarrow> world \<Rightarrow> world \<times> Config res" where
  "ReadConfig s debug customConfigPath w =
     bind (ReadConfig_load s customConfigPath w) (\<lambda>w loaded. ReadConfig_resolve s debug loaded w)"

section \<open>The command (cmd/gof5/main.go)\<close>

text \<open>How a run of \<^verbatim>\<open>main\<close> ends: it returns; \<^verbatim>\<open>os.Exit\<close> with a status; package flag
  rejects the command line and exits; \<^verbatim>\<open>fatal\<close> logs an error and exits with status 1;
  a panic. \<^verbatim>\<open>os.Exit\<close> ends the process at once: deferred calls do not run.\<close>

datatype flag_error =
    BadSyntax string
  | HelpRequested
  | NotDefined string
  | InvalidBoolean string string
  | NeedsArgument string
  | InvalidValue string string

datatype outcome = Finished | Exited nat | FlagExit flag_error | Fatal error | Crashed

datatype 'a step = Next 'a | Stop outcome

definition after :: "world \<times> 'a step \<Rightarrow> (world \<Rightarrow> 'a \<Rightarrow> world \<times> 'b step) \<Rightarrow> world \<times> 'b step" where
  "after m f = (case m of (w, Next x) \<Rightarrow> f w x | (w, Stop out) \<Rightarrow> (w, Stop out))"

text \<open>Lines 26 to 35.\<close>

definition fatal :: "sys \<Rightarrow> world \<Rightarrow> error \<Rightarrow> world \<times> 'a step" where
  "fatal s w err =
     (if GOOS s = ''windows'' then
        (emit (Printf w (PressEnter err)) ReadStdin, Stop (Fatal err))
      else (Printf w (FatalLine err), Stop (Fatal err)))"

text \<open>\<^verbatim>\<open>strconv.Itoa\<close> of a process id.\<close>

fun Itoa :: "nat \<Rightarrow> string" where
  "Itoa n = (if n < 10 then [''0123456789'' ! n] else Itoa (n div 10) @ [''0123456789'' ! (n mod 10)])"

declare Itoa.simps [simp del]

text \<open>\<^verbatim>\<open>strings.TrimSpace\<close>, for the white space of ASCII (tab, line feed, vertical tab,
  form feed, carriage return, space).\<close>

definition isSpace :: "char \<Rightarrow> bool" where
  "isSpace c = List.member [CHR 0x09, CHR 0x0A, CHR 0x0B, CHR 0x0C, CHR 0x0D, CHR '' ''] c"

definition TrimSpace :: "string \<Rightarrow> string" where
  "TrimSpace x = rev (dropWhile isSpace (rev (dropWhile isSpace x)))"

text \<open>
  Lines 37 to 72. \<^verbatim>\<open>exec.Command\<close> with \<^verbatim>\<open>cmd.Start\<close> starts the program anew, from the
  first line of \<^verbatim>\<open>main\<close>, in a process that inherits the environment; the caller then
  leaves with \<^verbatim>\<open>os.Exit(0)\<close>. The result is what the caller sees: a returned value or
  the exit.
\<close>

datatype 'a ctl = Returns 'a | Exits nat

definition daemonize :: "sys \<Rightarrow> world \<Rightarrow> string \<Rightarrow> world \<times> (error + string) ctl" where
  "daemonize s w logFilePath =
     (if GOOS s = ''windows'' then (w, Returns (Inl DaemonOnWindows))
      else
        (case MkdirAll s w (Dir s logFilePath) of
           (w1, Some cause) \<Rightarrow> (w1, Returns (Inl (LogDirFailed cause)))
         | (w1, None) \<Rightarrow>
             (case OpenFile s w1 logFilePath of
                (w2, Inl cause) \<Rightarrow> (w2, Returns (Inl (LogFileFailed cause)))
              | (w2, Inr logFile) \<Rightarrow>
                  (case Start s of
                     Some cause \<Rightarrow> (w2, Returns (Inl (DaemonStartFailed cause)))
                   | None \<Rightarrow>
                       (w2\<lparr>children := children w2 @
                             [\<lparr>proc_args = Args s, proc_env = environ w2,
                               proc_stderr = logFile\<rparr>]\<rparr>,
                        Exits 0)))))"

text \<open>Lines 74 to 88.\<close>

definition writePIDFile :: "sys \<Rightarrow> world \<Rightarrow> string \<Rightarrow> world \<times> error option" where
  "writePIDFile s w pidPath =
     (case MkdirAll s w (Dir s pidPath) of
        (w1, Some cause) \<Rightarrow> (w1, Some (PIDDirFailed cause))
      | (w1, None) \<Rightarrow>
          (case WriteFile s w1 pidPath (Itoa (Getpid s)) of
             (w2, Some cause) \<Rightarrow> (w2, Some (PIDWriteFailed cause))
           | (w2, None) \<Rightarrow> (w2, None)))"

text \<open>Lines 90 to 94.\<close>

definition removePIDFile :: "sys \<Rightarrow> world \<Rightarrow> string \<Rightarrow> world" where
  "removePIDFile s w pidPath =
     (case Remove s w pidPath of
        (w1, Some cause) \<Rightarrow> Printf w1 (WarnRemovePID cause)
      | (w1, None) \<Rightarrow> w1)"

subsection \<open>Package flag\<close>

text \<open>The local variables of \<^verbatim>\<open>main\<close>, lines 97 to 101.\<close>

record vars =
  version :: bool
  passwordFile :: string
  removePassFile :: bool
  logFilePath :: string
  opts :: Options

definition zeroVars :: vars where
  "zeroVars =
     \<lparr>version = False, passwordFile = '''', removePassFile = False, logFilePath = '''',
      opts = \<lparr>Server = '''', Username = '''', Password = '''', SessionID = '''',
              CACert = '''', Cert = '''', Key = '''', ConfigPath = '''',
              CloseSession = False, Debug = False, Sel = False, ProfileIndex = 0,
              Config = emptyConfig\<rparr>\<rparr>"

text \<open>
  Lines 113 to 128. \<^verbatim>\<open>flag.StringVar(p, name, value, usage)\<close> stores the default
  \<^verbatim>\<open>value\<close> in \<^verbatim>\<open>*p\<close> when the flag is defined (so do \<^verbatim>\<open>BoolVar\<close> and \<^verbatim>\<open>IntVar\<close>);
  \<^verbatim>\<open>flag.Parse\<close> later assigns the values the command line gives.
\<close>

definition define_flags :: "vars \<Rightarrow> vars" where
  "define_flags v =
     v\<lparr>opts := (opts v)\<lparr>Server := '''', Options.Username := '''', Password := '''',
                          SessionID := '''', CACert := '''', Cert := '''', Key := '''',
                          ConfigPath := '''', CloseSession := False,
                          Options.Debug := False, Sel := False, ProfileIndex := 0\<rparr>,
       passwordFile := '''', removePassFile := False, version := False,
       logFilePath := ''''\<rparr>"

definition string_flags :: "string list" where
  "string_flags =
     [''server'', ''username'', ''password'', ''password-file'', ''session'', ''ca-cert'',
      ''cert'', ''key'', ''config'', ''log-file'']"

definition bool_flags :: "string list" where
  "bool_flags = [''remove-password-file'', ''close-session'', ''debug'', ''select'', ''version'']"

definition int_flags :: "string list" where
  "int_flags = [''profile-index'']"

text \<open>\<^verbatim>\<open>strconv.ParseBool\<close>, which a boolean flag applies to its value.\<close>

definition ParseBool :: "string \<Rightarrow> bool option" where
  "ParseBool x =
     (if List.member [''1'', ''t'', ''T'', ''TRUE'', ''true'', ''True''] x then Some True
      else if List.member [''0'', ''f'', ''F'', ''FALSE'', ''false'', ''False''] x then Some False
      else None)"

text \<open>The \<^verbatim>\<open>Set\<close> of the flag of that name: the variable the flag was bound to gets the
  value; \<open>None\<close> when the value does not parse.\<close>

definition flag_Set :: "sys \<Rightarrow> string \<Rightarrow> string \<Rightarrow> vars \<Rightarrow> vars option" where
  "flag_Set s name x v =
     (if name = ''server'' then Some (v\<lparr>opts := (opts v)\<lparr>Server := x\<rparr>\<rparr>)
      else if name = ''username'' then Some (v\<lparr>opts := (opts v)\<lparr>Options.Username := x\<rparr>\<rparr>)
      else if name = ''password'' then Some (v\<lparr>opts := (opts v)\<lparr>Password := x\<rparr>\<rparr>)
      else if name = ''password-file'' then Some (v\<lparr>passwordFile := x\<rparr>)
      else if name = ''remove-password-file'' then
        map_option (\<lambda>b. v\<lparr>removePassFile := b\<rparr>) (ParseBool x)
      else if name = ''session'' then Some (v\<lparr>opts := (opts v)\<lparr>SessionID := x\<rparr>\<rparr>)
      else if name = ''ca-cert'' then Some (v\<lparr>opts := (opts v)\<lparr>CACert := x\<rparr>\<rparr>)
      else if name = ''cert'' then Some (v\<lparr>opts := (opts v)\<lparr>Cert := x\<rparr>\<rparr>)
      else if name = ''key'' then Some (v\<lparr>opts := (opts v)\<lparr>Key := x\<rparr>\<rparr>)
      else if name = ''config'' then Some (v\<lparr>opts := (opts v)\<lparr>ConfigPath := x\<rparr>\<rparr>)
      else if name = ''close-session'' then
        map_option (\<lambda>b. v\<lparr>opts := (opts v)\<lparr>CloseSession := b\<rparr>\<rparr>) (ParseBool x)
      else if name = ''debug'' then
        map_option (\<lambda>b. v\<lparr>opts := (opts v)\<lparr>Options.Debug := b\<rparr>\<rparr>) (ParseBool x)
      else if name = ''select'' then
        map_option (\<lambda>b. v\<lparr>opts := (opts v)\<lparr>Sel := b\<rparr>\<rparr>) (ParseBool x)
      else if name = ''profile-index'' then
        map_option (\<lambda>i. v\<lparr>opts := (opts v)\<lparr>ProfileIndex := i\<rparr>\<rparr>) (ParseInt s x)
      else if name = ''version'' then
        map_option (\<lambda>b. v\<lparr>version := b\<rparr>) (ParseBool x)
      else if name = ''log-file'' then Some (v\<lparr>logFilePath := x\<rparr>)
      else None)"

text \<open>A flag \<^verbatim>\<open>name=value\<close>: the name ends at the first \<^verbatim>\<open>=\<close> that is not its first
  character.\<close>

definition split_value :: "string \<Rightarrow> string \<times> string option" where
  "split_value body =
     (case body of
        [] \<Rightarrow> ([], None)
      | c # cs \<Rightarrow>
          (if List.member cs (CHR ''='') then
             (c # takeWhile (\<lambda>x. x \<noteq> CHR ''='') cs, Some (tl (dropWhile (\<lambda>x. x \<noteq> CHR ''='') cs)))
           else (body, None)))"

text \<open>
  \<^verbatim>\<open>flag.Parse\<close> on \<^verbatim>\<open>os.Args[1:]\<close>: flags are read until the first argument that is not
  one, or until \<^verbatim>\<open>--\<close>; a boolean flag takes a value only as \<^verbatim>\<open>name=value\<close>, any
  other flag takes the next argument when it has none. The result is the variables and
  the arguments left (\<^verbatim>\<open>flag.Args\<close>).
\<close>

fun flag_Parse :: "sys \<Rightarrow> string list \<Rightarrow> vars \<Rightarrow> flag_error + vars \<times> string list" where
  "flag_Parse s [] v = Inr (v, [])"
| "flag_Parse s (a # rest) v =
     (if length a < 2 then Inr (v, a # rest)
      else if hd a \<noteq> CHR ''-'' then Inr (v, a # rest)
      else if a = ''--'' then Inr (v, rest)
      else
        (let body = (if a ! 1 = CHR ''-'' then drop 2 a else drop 1 a) in
         if body = [] then Inl (BadSyntax a)
         else if hd body = CHR ''-'' then Inl (BadSyntax a)
         else if hd body = CHR ''='' then Inl (BadSyntax a)
         else
           (case split_value body of (name, given) \<Rightarrow>
              if List.member bool_flags name then
                (case given of
                   Some x \<Rightarrow>
                     (case flag_Set s name x v of
                        None \<Rightarrow> Inl (InvalidBoolean x name)
                      | Some v' \<Rightarrow> flag_Parse s rest v')
                 | None \<Rightarrow>
                     (case flag_Set s name ''true'' v of
                        None \<Rightarrow> Inl (InvalidBoolean ''true'' name)
                      | Some v' \<Rightarrow> flag_Parse s rest v'))
              else if List.member (string_flags @ int_flags) name then
                (case given of
                   Some x \<Rightarrow>
                     (case flag_Set s name x v of
                        None \<Rightarrow> Inl (InvalidValue x name)
                      | Some v' \<Rightarrow> flag_Parse s rest v')
                 | None \<Rightarrow>
                     (case rest of
                        [] \<Rightarrow> Inl (NeedsArgument name)
                      | x # rest' \<Rightarrow>
                          (case flag_Set s name x v of
                             None \<Rightarrow> Inl (InvalidValue x name)
                           | Some v' \<Rightarrow> flag_Parse s rest' v')))
              else if name = ''help'' then Inl HelpRequested
              else if name = ''h'' then Inl HelpRequested
              else Inl (NotDefined name))))"

subsection \<open>main\<close>

text \<open>Lines 103 to 111, "Check if we're the daemon child process".\<close>

definition daemon_child_entry :: "world \<Rightarrow> vars \<Rightarrow> world \<times> vars" where
  "daemon_child_entry w v =
     (if Getenv w ''__GOF5_DAEMONIZED'' = ''1'' then
        (let password = Getenv w ''__GOF5_PASSWORD'';
             w1 = Setenv w ''__GOF5_PASSWORD'' '''' in
         (w1, v\<lparr>opts := (opts v)\<lparr>Password := password\<rparr>, passwordFile := ''''\<rparr>))
      else (w, v))"

text \<open>Lines 97 to 135: the variables, the daemon child's entry, the flags, \<^verbatim>\<open>-version\<close>.\<close>

definition main_parse :: "sys \<Rightarrow> world \<Rightarrow> world \<times> (vars \<times> string list) step" where
  "main_parse s w =
     (case daemon_child_entry w zeroVars of
        (w1, v1) \<Rightarrow>
          (case flag_Parse s (Args s) (define_flags v1) of
             Inl e \<Rightarrow> (w1, Stop (FlagExit e))
           | Inr (v2, rest) \<Rightarrow>
               if version v2 then (emit w1 PrintedInfo, Stop (Exited 0))
               else (w1, Next (v2, rest))))"

text \<open>Lines 137 to 156: the profile index, the permissions, the URL argument, the
  configuration.\<close>

definition main_config :: "sys \<Rightarrow> world \<Rightarrow> vars \<times> string list \<Rightarrow> world \<times> vars step" where
  "main_config s w parsed =
     (case parsed of
        (v, rest) \<Rightarrow>
          if ProfileIndex (opts v) < 0 then fatal s w ProfileIndexNegative
          else
            (case checkPermissions s of
               Some cause \<Rightarrow> fatal s w (PermissionsFailed cause)
             | None \<Rightarrow>
                 (case (case rest of
                          [] \<Rightarrow> Inr (opts v)
                        | url # others \<Rightarrow> UrlHandlerF5Vpn s (opts v) url) of
                    Inl cause \<Rightarrow> fatal s w (UrlHandlerFailed cause)
                  | Inr o1 \<Rightarrow>
                      (case ReadConfig s (Options.Debug o1) (ConfigPath o1) w of
                         (w1, Fail err) \<Rightarrow> fatal s w1 err
                       | (w1, NilPanic) \<Rightarrow> (w1, Stop Crashed)
                       | (w1, Return cfg) \<Rightarrow> (w1, Next (v\<lparr>opts := o1\<lparr>Config := cfg\<rparr>\<rparr>))))))"

text \<open>Lines 158 to 170: the password from the file or from \<^verbatim>\<open>GOF5_PASSWORD\<close>, when
  it is still empty.\<close>

definition main_password :: "sys \<Rightarrow> world \<Rightarrow> vars \<Rightarrow> world \<times> vars step" where
  "main_password s w v =
     (if Password (opts v) = '''' then
        (if passwordFile v \<noteq> '''' then
           (case ReadFile s w (passwordFile v) of
              Inl cause \<Rightarrow> fatal s w (PasswordFileUnreadable cause)
            | Inr data \<Rightarrow> (w, Next (v\<lparr>opts := (opts v)\<lparr>Password := TrimSpace data\<rparr>\<rparr>)))
         else if Getenv w ''GOF5_PASSWORD'' \<noteq> '''' then
           (w, Next (v\<lparr>opts := (opts v)\<lparr>Password := Getenv w ''GOF5_PASSWORD''\<rparr>\<rparr>))
         else (w, Next v))
      else (w, Next v))"

text \<open>Lines 172 to 184: the current user, the path of the PID file, its first write.\<close>

definition main_pid :: "sys \<Rightarrow> world \<Rightarrow> world \<times> (user \<times> string) step" where
  "main_pid s w =
     (case Current s of
        Inl cause \<Rightarrow> fatal s w (CurrentUserFailed cause)
      | Inr usr \<Rightarrow>
          (let pidPath = Join s [''/tmp'', ''gof5'', user.Username usr @ ''.pid''] in
           case writePIDFile s w pidPath of
             (w1, Some err) \<Rightarrow> fatal s w1 err
           | (w1, None) \<Rightarrow> (w1, Next (usr, pidPath))))"

text \<open>Lines 187 to 223: daemon mode. The last branch is lines 213 to 222, the code after
  a \<^verbatim>\<open>daemonize\<close> that returned a log file.\<close>

definition main_daemon :: "sys \<Rightarrow> vars \<Rightarrow> user \<Rightarrow> string \<Rightarrow> world \<Rightarrow> world \<times> unit step" where
  "main_daemon s v usr pidPath w =
     (if Daemon (Config (opts v)) \<and> Getenv w ''__GOF5_DAEMONIZED'' \<noteq> ''1'' then
        (if Password (opts v) = '''' then fatal s w PasswordRequired
         else
           (let w1 = Setenv w ''__GOF5_PASSWORD'' (Password (opts v));
                w2 = Setenv w1 ''__GOF5_DAEMONIZED'' ''1'';
                w3 = (if passwordFile v \<noteq> '''' \<and> removePassFile v then
                        (case Remove s w2 (passwordFile v) of
                           (w', Some cause) \<Rightarrow> Printf w' (WarnRemovePasswordFile cause)
                         | (w', None) \<Rightarrow> w')
                      else w2);
                logPath = (if logFilePath v = '''' then
                             Join s [''/tmp'', ''gof5'', user.Username usr @ ''.log'']
                           else logFilePath v)
            in case daemonize s w3 logPath of
                 (w4, Exits n) \<Rightarrow> (w4, Stop (Exited n))
               | (w4, Returns (Inl err)) \<Rightarrow> fatal s w4 err
               | (w4, Returns (Inr logFile)) \<Rightarrow>
                   (let w5 = emit (emit w4 (SetOutput logFile)) (Dup2 logFile) in
                    case writePIDFile s w5 pidPath of
                      (w6, Some err) \<Rightarrow> (Printf w6 (WarnRewritePID err), Next ())
                    | (w6, None) \<Rightarrow> (w6, Next ()))))
      else (w, Next ()))"

text \<open>Lines 225 to 227.\<close>

definition main_connect :: "sys \<Rightarrow> vars \<Rightarrow> world \<Rightarrow> world \<times> unit step" where
  "main_connect s v w =
     (let w1 = emit w (Connected (opts v)) in
      case Connect s (opts v) of
        Some cause \<Rightarrow> fatal s w1 (ConnectFailed cause)
      | None \<Rightarrow> (w1, Next ()))"

text \<open>Lines 97 to 170: from the command line to the resolved options and password.\<close>

definition main_resolve :: "sys \<Rightarrow> world \<Rightarrow> world \<times> vars step" where
  "main_resolve s w = after (after (main_parse s w) (main_config s)) (main_password s)"

text \<open>
  Lines 172 to 228. \<^verbatim>\<open>defer removePIDFile(pidPath)\<close> is registered after the first
  write of the PID file: the call runs when \<^verbatim>\<open>main\<close> returns, and only then.
\<close>

definition main_supervise :: "sys \<Rightarrow> world \<Rightarrow> vars \<Rightarrow> world \<times> unit step" where
  "main_supervise s w v =
     after (main_pid s w)
       (\<lambda>w (usr, pidPath).
          case after (main_daemon s v usr pidPath w) (\<lambda>w u. main_connect s v w) of
            (w', Next u) \<Rightarrow> (removePIDFile s w' pidPath, Next ())
          | (w', Stop out) \<Rightarrow> (w', Stop out))"

definition main :: "sys \<Rightarrow> world \<Rightarrow> world \<times> outcome" where
  "main s w =
     (case after (main_resolve s w) (main_supervise s) of
        (w', Next u) \<Rightarrow> (w', Finished)
      | (w', Stop out) \<Rightarrow> (w', out))"

text \<open>The process that \<^verbatim>\<open>cmd.Start\<close> has started runs the program in the world its
  parent left, with its own process id.\<close>

definition run_child :: "sys \<Rightarrow> nat \<Rightarrow> world \<Rightarrow> proc \<Rightarrow> world \<times> outcome" where
  "run_child s pid w p =
     main (s\<lparr>Getpid := pid, Args := proc_args p\<rparr>) (w\<lparr>environ := proc_env p, children := [], trace := []\<rparr>)"

section \<open>Concrete surroundings\<close>

text \<open>
  The runs that accompany the theorems need values for the parameters of \<open>sys\<close>. On
  clean Unix paths \<^verbatim>\<open>filepath.Join\<close> puts a slash between the elements and
  \<^verbatim>\<open>filepath.Dir\<close> drops the last element; the users are alice (1000) and root (0).
\<close>

fun join_slash :: "string list \<Rightarrow> string" where
  "join_slash [] = []"
| "join_slash [x] = x"
| "join_slash (x # y # ys) = x @ ''/'' @ join_slash (y # ys)"

definition dir_slash :: "string \<Rightarrow> string" where
  "dir_slash p =
     (let d = rev (dropWhile (\<lambda>c. c \<noteq> CHR ''/'') (rev p)) in
      if d = [] then ''.'' else if butlast d = [] then ''/'' else butlast d)"

definition alice :: user where
  "alice = \<lparr>user.Uid = ''1000'', user.Gid = ''1000'', user.Username = ''alice'',
            HomeDir = ''/home/alice''\<rparr>"

definition root :: user where
  "root = \<lparr>user.Uid = ''0'', user.Gid = ''0'', user.Username = ''root'', HomeDir = ''/root''\<rparr>"

text \<open>A Linux machine where alice runs the program with no arguments, no file operation
  fails, the settings document is empty, and the VPN engine returns without error.\<close>

definition linux :: sys where
  "linux =
     \<lparr>GOOS = ''linux'', Geteuid = 1000, Getpid = 4242, Args = [],
      fault = (\<lambda>op p. None),
      LookupId = (\<lambda>x. if x = ''1000'' then Inr alice else Inl ''unknown userid''),
      Lookup = (\<lambda>x. if x = ''alice'' then Inr alice else Inl ''unknown user''),
      Current = Inr alice,
      Atoi = (\<lambda>x. if x = ''1000'' then Inr 1000 else if x = ''0'' then Inr 0
                   else Inl ''invalid syntax''),
      ParseInt = (\<lambda>x. None),
      Join = join_slash, Dir = dir_slash,
      Unmarshal = (\<lambda>raw. Inr emptyConfig),
      checkWinTunDriver = None, checkPermissions = None,
      UrlHandlerF5Vpn = (\<lambda>o1 url. Inr o1),
      Connect = (\<lambda>o1. None),
      Start = None\<rparr>"

text \<open>An empty environment and an empty file system.\<close>

definition world0 :: world where
  "world0 = \<lparr>environ = Map.empty, fs = Map.empty, owner = Map.empty, children = [], trace = []\<rparr>"

text \<open>The settings document parses to \<open>doc\<close>.\<close>

definition with_settings :: "Config \<Rightarrow> sys \<Rightarrow> sys" where
  "with_settings doc s = s\<lparr>Unmarshal := (\<lambda>raw. Inr doc)\<rparr>"

text \<open>The configuration directory of alice and a settings document exist.\<close>

definition home_world :: world where
  "home_world =
     world0\<lparr>fs := [''/home/alice/.gof5'' \<mapsto> Directory,
                    ''/home/alice/.gof5/config.yaml'' \<mapsto> File ''settings'']\<rparr>"

text \<open>The program runs as root with \<^verbatim>\<open>SUDO_UID=1001\<close>, a user id the system does not
  know, and \<^verbatim>\<open>SUDO_USER\<close> is not set.\<close>

definition sudo_unknown :: sys where
  "sudo_unknown = linux\<lparr>Geteuid := 0, Current := Inr root\<rparr>"

definition sudo_unknown_world :: world where
  "sudo_unknown_world = world0\<lparr>environ := [''SUDO_UID'' \<mapsto> ''1001'']\<rparr>"

text \<open>The options that \<^verbatim>\<open>client.Connect\<close> was called with, oldest first.\<close>

fun connected :: "event list \<Rightarrow> Options list" where
  "connected [] = []"
| "connected (Connected o1 # es) = o1 # connected es"
| "connected (e # es) = connected es"

text \<open>A settings document that asks for daemon mode.\<close>

definition daemon_settings :: Config where
  "daemon_settings = emptyConfig\<lparr>Daemon := True\<rparr>"

definition with_args :: "string list \<Rightarrow> sys \<Rightarrow> sys" where
  "with_args as s = s\<lparr>Args := as\<rparr>"

text \<open>The file \<^verbatim>\<open>/tmp/p\<close> holds the password and a line feed.\<close>

definition secret_world :: world where
  "secret_world =
     world0\<lparr>fs := [''/home/alice/.gof5'' \<mapsto> Directory,
                    ''/home/alice/.gof5/config.yaml'' \<mapsto> File ''settings'',
                    ''/tmp/p'' \<mapsto> File (''secret'' @ [CHR 0x0A])]\<rparr>"

text \<open>The command line of the scenario, without a daemon flag: daemon mode comes from
  the settings document.\<close>

definition daemon_parent :: sys where
  "daemon_parent =
     with_args [''--password-file'', ''/tmp/p'', ''--remove-password-file'']
       (with_settings daemon_settings linux)"

text \<open>The environment of a daemon child: the marker and the handed-over password.\<close>

definition handoff_world :: world where
  "handoff_world =
     world0\<lparr>environ := [''__GOF5_DAEMONIZED'' \<mapsto> ''1'', ''__GOF5_PASSWORD'' \<mapsto> ''hunter2'']\<rparr>"

text \<open>The PID file cannot be written.\<close>

definition pid_write_denied :: sys where
  "pid_write_denied =
     linux\<lparr>fault := (\<lambda>op p. if op = OpWriteFile \<and> p = ''/tmp/gof5/alice.pid''
                               then Some ''permission denied'' else None)\<rparr>"

text \<open>The VPN engine returns an error.\<close>

definition connect_refused :: sys where
  "connect_refused = linux\<lparr>Connect := (\<lambda>o1. Some ''connection refused'')\<rparr>"

subsection \<open>Frame conditions\<close>

text \<open>A call that touches only files and the log leaves the environment and the started
  processes alone; a call that only creates what is missing keeps every file.\<close>

definition same_processes :: "world \<Rightarrow> world \<Rightarrow> bool" where
  "same_processes w w' \<longleftrightarrow> environ w' = environ w \<and> children w' = children w"

definition keeps_files :: "world \<Rightarrow> world \<Rightarrow> bool" where
  "keeps_files w w' \<longleftrightarrow> (\<forall>p n. fs w p = Some n \<longrightarrow> fs w' p = Some n)"

text \<open>The command line of the scenario as the specification writes it.\<close>

definition daemon_flag_parent :: sys where
  "daemon_flag_parent =
     with_args [''--password-file'', ''/tmp/p'', ''--remove-password-file'', ''--daemon'']
       (with_settings daemon_settings linux)"



section \<open>Properties of the configuration resolver\<close>

lemmas run_defs =
  main_def main_resolve_def main_supervise_def main_parse_def main_config_def main_password_def
  main_pid_def main_daemon_def main_connect_def daemon_child_entry_def define_flags_def zeroVars_def
  after_def fatal_def writePIDFile_def removePIDFile_def daemonize_def
  ReadConfig_def ReadConfig_load_def ReadConfig_resolve_def resolve_user_def config_paths_def
  owner_ids_def ensure_dir_def load_document_def validate_def bind_def deref_def emptyConfig_def
  Getenv_def Setenv_def emit_def Printf_def Stat_def MkdirAll_def Chown_def ReadFile_def
  WriteFile_def Remove_def OpenFile_def configDir_def configName_def supportedDrivers_def
  StrSliceContains_def defaultDNSListenAddr_def defaultBSDDNSListenAddr_def
  linux_def world0_def alice_def root_def dir_slash_def TrimSpace_def isSpace_def
  flag_Set_def split_value_def bool_flags_def string_flags_def int_flags_def ParseBool_def
  Let_def

lemma bind_Return_iff:
  "bind m f = (w', Return y) \<longleftrightarrow> (\<exists>w1 x. m = (w1, Return x) \<and> f w1 x = (w', Return y))"
  by (cases m) (auto simp: bind_def split: res.splits)

lemma bind_Return [simp]: "bind (w, Return x) f = f w x"
  by (simp add: bind_def)

lemma deref_Return_iff: "deref w usr = (w', Return u) \<longleftrightarrow> w' = w \<and> usr = Some u"
  by (auto simp: deref_def split: option.splits)

lemma ReadConfig_after_load:
  "ReadConfig_load s custom w = (w1, Return loaded) \<Longrightarrow>
   ReadConfig s debug custom w = ReadConfig_resolve s debug loaded w1"
  by (simp add: ReadConfig_def)

lemma validate_Return:
  assumes "validate s doc w = (w', Return cfg)"
  shows "w' = w \<and> Driver cfg = (if Driver doc = '''' then ''wireguard'' else Driver doc) \<and>
         StrSliceContains supportedDrivers (Driver cfg) \<and>
         ListenDNS cfg =
           (case ListenDNS doc of
              Some a \<Rightarrow> Some a
            | None \<Rightarrow>
                Some (if GOOS s = ''freebsd'' \<or> GOOS s = ''darwin''
                      then defaultBSDDNSListenAddr else defaultDNSListenAddr)) \<and>
         Daemon cfg = Daemon doc"
  using assms
  by (auto simp: validate_def Let_def split: option.splits if_splits)

lemma ReadConfig_resolve_Return:
  assumes "ReadConfig_resolve s debug (usr, configPath, uid, gid, doc) w = (w', Return cfg)"
  shows "\<exists>u cfg1. usr = Some u \<and> validate s doc w = (w, Return cfg1) \<and>
           cfg = cfg1\<lparr>Path := configPath, CookiePath := Join s [HomeDir u, configDir],
                       Uid := uid, Gid := gid, Config.Debug := debug\<rparr>"
  using assms
  by (auto simp: ReadConfig_resolve_def bind_Return_iff deref_Return_iff Let_def
      dest!: validate_Return split: if_splits)

lemma ReadConfig_load_Return:
  assumes "ReadConfig_load s custom w = (w1, Return (usr, configPath, uid, gid, doc))"
  shows "\<exists>w0. resolve_user s w = (w0, Return usr)"
  using assms
  by (auto simp: ReadConfig_load_def bind_Return_iff split: prod.splits)

lemma ReadConfig_Return:
  assumes "snd (ReadConfig s debug custom w) = Return cfg"
  shows "\<exists>w0 w1 u configPath uid gid doc cfg1.
           resolve_user s w = (w0, Return (Some u)) \<and>
           ReadConfig_load s custom w = (w1, Return (Some u, configPath, uid, gid, doc)) \<and>
           validate s doc w1 = (w1, Return cfg1) \<and>
           cfg = cfg1\<lparr>Path := configPath, CookiePath := Join s [HomeDir u, configDir],
                       Uid := uid, Gid := gid, Config.Debug := debug\<rparr>"
proof -
  obtain w' where "ReadConfig s debug custom w = (w', Return cfg)"
    using assms by (cases "ReadConfig s debug custom w") simp
  then obtain w1 loaded where
    load: "ReadConfig_load s custom w = (w1, Return loaded)" and
    res: "ReadConfig_resolve s debug loaded w1 = (w', Return cfg)"
    by (auto simp: ReadConfig_def bind_Return_iff)
  obtain usr configPath uid gid doc where loaded: "loaded = (usr, configPath, uid, gid, doc)"
    by (cases loaded) auto
  from ReadConfig_resolve_Return [OF res [unfolded loaded]] obtain u cfg1 where
    "usr = Some u" "validate s doc w1 = (w1, Return cfg1)"
    "cfg = cfg1\<lparr>Path := configPath, CookiePath := Join s [HomeDir u, configDir],
                 Uid := uid, Gid := gid, Config.Debug := debug\<rparr>"
    by blast
  moreover from ReadConfig_load_Return [OF load [unfolded loaded]] obtain w0 where
    "resolve_user s w = (w0, Return usr)" by blast
  ultimately show ?thesis using load loaded by blast
qed

text \<open>
  C7. Whatever the configuration-file path is, custom or empty (the default), a Config
  that \<^verbatim>\<open>ReadConfig\<close> returns has as its cookie directory the directory \<^verbatim>\<open>.gof5\<close>
  under the home directory of the resolved user: the path is computed from the user
  alone, never from the custom path.
\<close>

theorem cookie_path_fixed:
  assumes "snd (ReadConfig s debug customConfigPath w) = Return cfg"
  shows "\<exists>w0 u. resolve_user s w = (w0, Return (Some u)) \<and>
           CookiePath cfg = Join s [HomeDir u, configDir]"
  using ReadConfig_Return [OF assms] by auto

theorem cookie_path_fixed_witness:
  "\<exists>cfg. snd (ReadConfig linux False ''/etc/gof5/config.yaml'' world0) = Return cfg \<and>
         Path cfg = ''/etc/gof5'' \<and> CookiePath cfg = ''/home/alice/.gof5''"
proof -
  have "\<exists>cfg. snd (ReadConfig linux False ''/etc/gof5/config.yaml'' world0) = Return cfg \<and>
          Path cfg = ''/etc/gof5''"
    by (simp add: run_defs)
  then obtain cfg where
    run: "snd (ReadConfig linux False ''/etc/gof5/config.yaml'' world0) = Return cfg" and
    path: "Path cfg = ''/etc/gof5''"
    by blast
  have "resolve_user linux world0 = (world0, Return (Some alice))"
    by (simp add: run_defs)
  with cookie_path_fixed [OF run] have "CookiePath cfg = Join linux [HomeDir alice, configDir]"
    by auto
  then have "CookiePath cfg = ''/home/alice/.gof5''"
    by (simp add: run_defs)
  with run path show ?thesis by blast
qed

lemma ReadConfig_snd_after_load:
  assumes "snd (ReadConfig_load s custom w) = Return loaded"
  shows "ReadConfig s debug custom w =
           ReadConfig_resolve s debug loaded (fst (ReadConfig_load s custom w))"
proof -
  have "ReadConfig_load s custom w = (fst (ReadConfig_load s custom w), Return loaded)"
    using assms by (cases "ReadConfig_load s custom w") simp
  then show ?thesis by (rule ReadConfig_after_load)
qed

lemma validate_explicit:
  assumes "List.member supportedDrivers (Driver doc)" and "ListenDNS doc = Some a"
    and "checkWinTunDriver s = None" and "GOOS s \<noteq> ''windows''"
  shows "validate s doc w = (w, Return doc)"
  using assms
  by (auto simp: validate_def Let_def StrSliceContains_def supportedDrivers_def)



text \<open>
  C9. When the settings document names a driver other than \<^verbatim>\<open>wireguard\<close> and
  \<^verbatim>\<open>pppd\<close> (the empty string is no driver: it stands for the default), \<^verbatim>\<open>ReadConfig\<close>
  returns the error that carries that driver and the supported set; when it names
  \<^verbatim>\<open>pppd\<close> on Windows, \<^verbatim>\<open>ReadConfig\<close> returns the error of the unsupported
  combination. Nothing more is done to the surroundings in either case.
\<close>

theorem unsupported_driver_rejected:
  assumes "snd (ReadConfig_load s customConfigPath w) = Return (usr, configPath, uid, gid, doc)"
  shows "(Driver doc \<noteq> '''' \<and> Driver doc \<noteq> ''wireguard'' \<and> Driver doc \<noteq> ''pppd'' \<longrightarrow>
            ReadConfig s debug customConfigPath w =
              (fst (ReadConfig_load s customConfigPath w),
               Fail (UnsupportedDriver (Driver doc) [''wireguard'', ''pppd'']))) \<and>
         (Driver doc = ''pppd'' \<and> GOOS s = ''windows'' \<longrightarrow>
            ReadConfig s debug customConfigPath w =
              (fst (ReadConfig_load s customConfigPath w), Fail PppdOnWindows))"
  by (simp add: ReadConfig_snd_after_load [OF assms] ReadConfig_resolve_def validate_def
      StrSliceContains_def supportedDrivers_def bind_def Let_def)

theorem unsupported_driver_rejected_witness:
  "snd (ReadConfig (with_settings (emptyConfig\<lparr>Driver := ''openvpn''\<rparr>) linux) False '''' home_world) =
     Fail (UnsupportedDriver ''openvpn'' [''wireguard'', ''pppd'']) \<and>
   snd (ReadConfig (with_settings (emptyConfig\<lparr>Driver := ''pppd''\<rparr>) (linux\<lparr>GOOS := ''windows''\<rparr>))
          False '''' home_world) = Fail PppdOnWindows"
proof -
  let ?s1 = "with_settings (emptyConfig\<lparr>Driver := ''openvpn''\<rparr>) linux"
  let ?s2 = "with_settings (emptyConfig\<lparr>Driver := ''pppd''\<rparr>) (linux\<lparr>GOOS := ''windows''\<rparr>)"
  have load1: "snd (ReadConfig_load ?s1 '''' home_world) =
      Return (Some alice, ''/home/alice/.gof5'', 1000, 1000, emptyConfig\<lparr>Driver := ''openvpn''\<rparr>)"
    by (simp add: run_defs with_settings_def home_world_def)
  have load2: "snd (ReadConfig_load ?s2 '''' home_world) =
      Return (Some alice, ''/home/alice/.gof5'', 0, 0, emptyConfig\<lparr>Driver := ''pppd''\<rparr>)"
    by (simp add: run_defs with_settings_def home_world_def)
  have "snd (ReadConfig ?s1 False '''' home_world) =
          Fail (UnsupportedDriver ''openvpn'' [''wireguard'', ''pppd''])"
    using unsupported_driver_rejected [OF load1, of False] by (simp add: emptyConfig_def)
  moreover have "snd (ReadConfig ?s2 False '''' home_world) = Fail PppdOnWindows"
    using unsupported_driver_rejected [OF load2, of False]
    by (simp add: emptyConfig_def with_settings_def)
  ultimately show ?thesis by simp
qed

text \<open>
  C4, at a failing input. Running as root with \<^verbatim>\<open>SUDO_UID\<close> set to an id whose lookup
  fails and with no \<^verbatim>\<open>SUDO_USER\<close>, the resolver is left with a nil user and goes on:
  \<^verbatim>\<open>ReadConfig\<close> returns no error, it panics at the first field it reads from the
  user, and \<^verbatim>\<open>main\<close> crashes.
\<close>

theorem unresolved_identity_panics:
  "snd (ReadConfig sudo_unknown False '''' sudo_unknown_world) = NilPanic \<and>
   snd (resolve_user sudo_unknown sudo_unknown_world) = Return None \<and>
   snd (main sudo_unknown sudo_unknown_world) = Crashed"
  by (simp add: run_defs sudo_unknown_def sudo_unknown_world_def)

section \<open>Frame lemmas\<close>

lemma same_processes_refl [simp]: "same_processes w w"
  by (simp add: same_processes_def)

lemma same_processes_trans: "same_processes w w1 \<Longrightarrow> same_processes w1 w2 \<Longrightarrow> same_processes w w2"
  by (simp add: same_processes_def)

lemma same_processes_Getenv: "same_processes w w' \<Longrightarrow> Getenv w' k = Getenv w k"
  by (simp add: same_processes_def Getenv_def)

lemma same_processes_emit [simp]: "same_processes w (emit w e)"
  by (simp add: same_processes_def emit_def)

lemma same_processes_Printf [simp]: "same_processes w (Printf w l)"
  by (simp add: Printf_def)

lemma same_processes_MkdirAll [simp]: "same_processes w (fst (MkdirAll s w p))"
  by (simp add: same_processes_def MkdirAll_def split: option.splits node.splits)

lemma same_processes_Chown [simp]: "same_processes w (fst (Chown s w p uid gid))"
  by (simp add: same_processes_def Chown_def split: option.splits)

lemma same_processes_WriteFile [simp]: "same_processes w (fst (WriteFile s w p d))"
  by (simp add: same_processes_def WriteFile_def split: option.splits node.splits)

lemma same_processes_Remove [simp]: "same_processes w (fst (Remove s w p))"
  by (simp add: same_processes_def Remove_def split: option.splits)

lemma same_processes_OpenFile [simp]: "same_processes w (fst (OpenFile s w p))"
  by (simp add: same_processes_def OpenFile_def split: option.splits node.splits)

lemma same_processes_bind:
  assumes "same_processes w (fst m)"
    and "\<And>w1 x. same_processes w w1 \<Longrightarrow> same_processes w (fst (f w1 x))"
  shows "same_processes w (fst (bind m f))"
  using assms by (cases m) (auto simp: bind_def split: res.splits)

lemma same_processes_after:
  assumes "same_processes w (fst m)"
    and "\<And>w1 x. same_processes w w1 \<Longrightarrow> same_processes w (fst (f w1 x))"
  shows "same_processes w (fst (after m f))"
  using assms by (cases m) (auto simp: after_def split: step.splits)

lemma same_processes_step:
  "same_processes w w1 \<Longrightarrow> same_processes w1 (fst (f w1)) \<Longrightarrow> same_processes w (fst (f w1))"
  by (rule same_processes_trans)

lemma same_processes_deref [simp]: "same_processes w (fst (deref w usr))"
  by (simp add: deref_def split: option.splits)

lemma same_processes_resolve_user [simp]: "same_processes w (fst (resolve_user s w))"
  by (simp add: resolve_user_def Let_def split: sum.splits)

lemma same_processes_config_paths [simp]: "same_processes w (fst (config_paths s usr c w))"
  by (simp add: config_paths_def deref_def bind_def Let_def split: option.splits)

lemma same_processes_owner_ids [simp]: "same_processes w (fst (owner_ids s usr w))"
  by (simp add: owner_ids_def deref_def bind_def split: option.splits sum.splits)

lemma same_processes_ensure_dir [simp]: "same_processes w (fst (ensure_dir s kind p uid gid w))"
proof -
  have a: "same_processes w (fst (MkdirAll s (Printf w (CreatingDir p)) p))"
    by (rule same_processes_trans [OF same_processes_Printf same_processes_MkdirAll])
  have b: "same_processes w (fst (Chown s (fst (MkdirAll s (Printf w (CreatingDir p)) p)) p uid gid))"
    by (rule same_processes_trans [OF a same_processes_Chown])
  show ?thesis
    using a b by (auto simp: ensure_dir_def Let_def split: stat.splits prod.splits option.splits)
qed

lemma same_processes_load_document [simp]: "same_processes w (fst (load_document s f w))"
  by (simp add: load_document_def split: sum.splits)

lemma same_processes_validate [simp]: "same_processes w (fst (validate s cfg w))"
  by (simp add: validate_def Let_def split: option.splits)

lemma sp_resolve_user: "same_processes w0 w \<Longrightarrow> same_processes w0 (fst (resolve_user s w))"
  by (erule same_processes_trans) simp

lemma sp_config_paths: "same_processes w0 w \<Longrightarrow> same_processes w0 (fst (config_paths s usr c w))"
  by (erule same_processes_trans) simp

lemma sp_owner_ids: "same_processes w0 w \<Longrightarrow> same_processes w0 (fst (owner_ids s usr w))"
  by (erule same_processes_trans) simp

lemma sp_ensure_dir: "same_processes w0 w \<Longrightarrow> same_processes w0 (fst (ensure_dir s kind p uid gid w))"
  by (erule same_processes_trans) simp

lemma sp_load_document: "same_processes w0 w \<Longrightarrow> same_processes w0 (fst (load_document s f w))"
  by (erule same_processes_trans) simp

lemma sp_validate: "same_processes w0 w \<Longrightarrow> same_processes w0 (fst (validate s cfg w))"
  by (erule same_processes_trans) simp

lemma sp_deref: "same_processes w0 w \<Longrightarrow> same_processes w0 (fst (deref w usr))"
  by (erule same_processes_trans) simp

lemmas sp_stages =
  sp_resolve_user sp_config_paths sp_owner_ids sp_ensure_dir sp_load_document sp_validate sp_deref

lemma sp_ReadConfig_load:
  "same_processes w0 w \<Longrightarrow> same_processes w0 (fst (ReadConfig_load s c w))"
  unfolding ReadConfig_load_def
  by (auto simp: case_prod_beta intro!: same_processes_bind sp_stages)

lemma sp_ReadConfig_resolve:
  "same_processes w0 w \<Longrightarrow> same_processes w0 (fst (ReadConfig_resolve s debug loaded w))"
  unfolding ReadConfig_resolve_def
  by (auto simp: case_prod_beta Let_def intro!: same_processes_bind sp_stages)

lemma sp_ReadConfig:
  "same_processes w0 w \<Longrightarrow> same_processes w0 (fst (ReadConfig s debug c w))"
  unfolding ReadConfig_def
  by (auto intro!: same_processes_bind sp_ReadConfig_load sp_ReadConfig_resolve)

lemma sp_emit: "same_processes w0 w \<Longrightarrow> same_processes w0 (emit w e)"
  by (erule same_processes_trans) simp

lemma sp_Printf: "same_processes w0 w \<Longrightarrow> same_processes w0 (Printf w l)"
  by (erule same_processes_trans) simp

lemma sp_MkdirAll: "same_processes w0 w \<Longrightarrow> same_processes w0 (fst (MkdirAll s w p))"
  by (erule same_processes_trans) simp

lemma sp_WriteFile: "same_processes w0 w \<Longrightarrow> same_processes w0 (fst (WriteFile s w p d))"
  by (erule same_processes_trans) simp

lemma sp_Remove: "same_processes w0 w \<Longrightarrow> same_processes w0 (fst (Remove s w p))"
  by (erule same_processes_trans) simp

lemmas sp_calls = sp_emit sp_Printf sp_MkdirAll sp_WriteFile sp_Remove

lemma sp_fatal: "same_processes w0 w \<Longrightarrow> same_processes w0 (fst (fatal s w err))"
  by (auto simp: fatal_def intro!: sp_calls)

lemma sp_writePIDFile: "same_processes w0 w \<Longrightarrow> same_processes w0 (fst (writePIDFile s w p))"
  by (auto simp: writePIDFile_def case_prod_beta split: option.splits intro!: sp_calls)

lemma sp_removePIDFile: "same_processes w0 w \<Longrightarrow> same_processes w0 (removePIDFile s w p)"
  by (auto simp: removePIDFile_def case_prod_beta split: option.splits intro!: sp_calls)

lemma sp_main_config: "same_processes w0 w \<Longrightarrow> same_processes w0 (fst (main_config s w parsed))"
  by (auto simp: main_config_def case_prod_beta split: option.splits sum.splits list.splits res.splits
      intro!: sp_fatal sp_ReadConfig)

lemma sp_main_password: "same_processes w0 w \<Longrightarrow> same_processes w0 (fst (main_password s w v))"
  by (auto simp: main_password_def split: sum.splits intro!: sp_fatal)

lemma sp_main_pid: "same_processes w0 w \<Longrightarrow> same_processes w0 (fst (main_pid s w))"
  by (auto simp: main_pid_def Let_def case_prod_beta split: sum.splits option.splits
      intro!: sp_fatal sp_writePIDFile)

lemma sp_main_connect: "same_processes w0 w \<Longrightarrow> same_processes w0 (fst (main_connect s v w))"
  by (auto simp: main_connect_def Let_def split: option.splits intro!: sp_fatal sp_calls)

text \<open>A process that is not a daemon child leaves the world as it is while it parses.\<close>

lemma daemon_child_entry_foreground:
  "Getenv w ''__GOF5_DAEMONIZED'' \<noteq> ''1'' \<Longrightarrow> daemon_child_entry w v = (w, v)"
  by (simp add: daemon_child_entry_def)

lemma sp_main_parse:
  "Getenv w ''__GOF5_DAEMONIZED'' \<noteq> ''1'' \<Longrightarrow> same_processes w (fst (main_parse s w))"
  by (auto simp: main_parse_def daemon_child_entry_foreground split: sum.splits)

lemma sp_main_resolve:
  "Getenv w ''__GOF5_DAEMONIZED'' \<noteq> ''1'' \<Longrightarrow> same_processes w (fst (main_resolve s w))"
  unfolding main_resolve_def
  by (intro same_processes_after sp_main_parse sp_main_config sp_main_password)

lemma main_pid_Stop: "main_pid s w = (w', Stop out) \<Longrightarrow> \<exists>err. out = Fatal err"
  by (auto simp: main_pid_def fatal_def Let_def split: sum.splits prod.splits option.splits if_splits)

lemma main_after_resolve:
  "main_resolve s w = (w1, Next v) \<Longrightarrow>
   main s w = (case main_supervise s w1 v of (w', Next u) \<Rightarrow> (w', Finished) | (w', Stop out) \<Rightarrow> (w', out))"
  by (simp add: main_def after_def)

lemma keeps_files_refl [simp]: "keeps_files w w"
  by (simp add: keeps_files_def)

lemma keeps_files_trans: "keeps_files w w1 \<Longrightarrow> keeps_files w1 w2 \<Longrightarrow> keeps_files w w2"
  by (simp add: keeps_files_def)

lemma keeps_files_emit [simp]: "keeps_files w (emit w e)"
  by (simp add: keeps_files_def emit_def)

lemma keeps_files_Printf [simp]: "keeps_files w (Printf w l)"
  by (simp add: Printf_def)

lemma keeps_files_MkdirAll [simp]: "keeps_files w (fst (MkdirAll s w p))"
  by (auto simp: keeps_files_def MkdirAll_def split: option.splits node.splits)

lemma keeps_files_Chown [simp]: "keeps_files w (fst (Chown s w p uid gid))"
  by (simp add: keeps_files_def Chown_def split: option.splits)

lemma keeps_files_bind:
  assumes "keeps_files w (fst m)"
    and "\<And>w1 x. keeps_files w w1 \<Longrightarrow> keeps_files w (fst (f w1 x))"
  shows "keeps_files w (fst (bind m f))"
  using assms by (cases m) (auto simp: bind_def split: res.splits)

lemma kf_Printf: "keeps_files w0 w \<Longrightarrow> keeps_files w0 (Printf w l)"
  by (erule keeps_files_trans) simp

lemma kf_emit: "keeps_files w0 w \<Longrightarrow> keeps_files w0 (emit w l)"
  by (erule keeps_files_trans) simp

lemma kf_MkdirAll: "keeps_files w0 w \<Longrightarrow> keeps_files w0 (fst (MkdirAll s w p))"
  by (erule keeps_files_trans) simp

lemma kf_Chown: "keeps_files w0 w \<Longrightarrow> keeps_files w0 (fst (Chown s w p uid gid))"
  by (erule keeps_files_trans) simp

lemmas kf_calls = kf_Printf kf_emit kf_MkdirAll kf_Chown

lemma kf_deref: "keeps_files w0 w \<Longrightarrow> keeps_files w0 (fst (deref w usr))"
  by (simp add: deref_def split: option.splits)

lemma kf_resolve_user: "keeps_files w0 w \<Longrightarrow> keeps_files w0 (fst (resolve_user s w))"
  by (auto simp: resolve_user_def Let_def split: sum.splits intro!: kf_calls)

lemma kf_config_paths: "keeps_files w0 w \<Longrightarrow> keeps_files w0 (fst (config_paths s usr c w))"
  by (simp add: config_paths_def deref_def bind_def Let_def split: option.splits)

lemma kf_owner_ids: "keeps_files w0 w \<Longrightarrow> keeps_files w0 (fst (owner_ids s usr w))"
  by (simp add: owner_ids_def deref_def bind_def split: option.splits sum.splits)

lemma kf_ensure_dir: "keeps_files w0 w \<Longrightarrow> keeps_files w0 (fst (ensure_dir s kind p uid gid w))"
  by (auto simp: ensure_dir_def Let_def case_prod_beta split: stat.splits option.splits
      intro!: kf_calls)

lemma kf_load_document: "keeps_files w0 w \<Longrightarrow> keeps_files w0 (fst (load_document s f w))"
  by (auto simp: load_document_def split: sum.splits intro!: kf_calls)

lemma kf_validate: "keeps_files w0 w \<Longrightarrow> keeps_files w0 (fst (validate s cfg w))"
  by (simp add: validate_def Let_def split: option.splits)

lemmas kf_stages =
  kf_resolve_user kf_config_paths kf_owner_ids kf_ensure_dir kf_load_document kf_validate kf_deref

lemma kf_ReadConfig_load: "keeps_files w0 w \<Longrightarrow> keeps_files w0 (fst (ReadConfig_load s c w))"
  unfolding ReadConfig_load_def
  by (auto simp: case_prod_beta intro!: keeps_files_bind kf_stages)

lemma kf_ReadConfig_resolve:
  "keeps_files w0 w \<Longrightarrow> keeps_files w0 (fst (ReadConfig_resolve s debug loaded w))"
  unfolding ReadConfig_resolve_def
  by (auto simp: case_prod_beta Let_def intro!: keeps_files_bind kf_stages)

lemma kf_ReadConfig: "keeps_files w0 w \<Longrightarrow> keeps_files w0 (fst (ReadConfig s debug c w))"
  unfolding ReadConfig_def
  by (auto intro!: keeps_files_bind kf_ReadConfig_load kf_ReadConfig_resolve)

lemma kf_fatal: "keeps_files w0 w \<Longrightarrow> keeps_files w0 (fst (fatal s w err))"
  by (auto simp: fatal_def intro!: kf_calls)

lemma kf_main_config: "keeps_files w0 w \<Longrightarrow> keeps_files w0 (fst (main_config s w parsed))"
  by (auto simp: main_config_def case_prod_beta split: option.splits sum.splits list.splits res.splits
      intro!: kf_fatal kf_ReadConfig)

section \<open>Properties of the command\<close>

lemma daemonize_never_returns_log_file: "snd (daemonize s w logPath) \<noteq> Returns (Inr logFile)"
  by (simp add: daemonize_def split: prod.splits option.splits sum.splits)

text \<open>
  C6. Take any invocation that is not a daemon child and that gets as far as its resolved
  options \<open>v\<close> (lines 97 to 170 passed), with daemon mode set and the resolved
  password empty. Then \<^verbatim>\<open>main\<close> ends in \<^verbatim>\<open>fatal\<close>, no process has been started, and
  whenever the PID file could be written the error is the one of line 190, "password is
  required for daemon mode; ...".
\<close>

theorem daemon_without_password_is_fatal:
  assumes resolved: "main_resolve s w = (w1, Next v)"
    and daemon: "Daemon (Config (opts v))"
    and foreground: "Getenv w ''__GOF5_DAEMONIZED'' \<noteq> ''1''"
    and empty: "Password (opts v) = ''''"
  shows "(\<exists>err. snd (main s w) = Fatal err) \<and>
         children (fst (main s w)) = children w \<and>
         (\<forall>w2 x. main_pid s w1 = (w2, Next x) \<longrightarrow> snd (main s w) = Fatal PasswordRequired)"
proof -
  have w1: "same_processes w w1"
    using sp_main_resolve [OF foreground, of s] resolved by simp
  obtain w2 r where pid: "main_pid s w1 = (w2, r)"
    by (cases "main_pid s w1") auto
  have w2: "same_processes w w2"
    using sp_main_pid [OF w1, of s] pid by simp
  show ?thesis
  proof (cases r)
    case (Stop out)
    then obtain err where "out = Fatal err"
      using main_pid_Stop pid by blast
    with Stop pid w2 show ?thesis
      by (simp add: main_after_resolve [OF resolved] main_supervise_def after_def
          same_processes_def)
  next
    case (Next x)
    obtain usr pidPath where x: "x = (usr, pidPath)" by (cases x) auto
    have env: "Getenv w2 ''__GOF5_DAEMONIZED'' \<noteq> ''1''"
      using foreground same_processes_Getenv [OF w2] by simp
    have d: "main_daemon s v usr pidPath w2 = fatal s w2 PasswordRequired"
      using daemon env empty by (simp add: main_daemon_def)
    have f: "same_processes w (fst (fatal s w2 PasswordRequired :: world \<times> unit step))"
      by (rule sp_fatal [OF w2])
    have g: "snd (fatal s w2 PasswordRequired :: world \<times> unit step) = Stop (Fatal PasswordRequired)"
      by (simp add: fatal_def)
    obtain w3 where h: "(fatal s w2 PasswordRequired :: world \<times> unit step) = (w3, Stop (Fatal PasswordRequired))"
      using g by (cases "fatal s w2 PasswordRequired :: world \<times> unit step") auto
    with f have "same_processes w w3" by simp
    with Next x pid d h show ?thesis
      by (simp add: main_after_resolve [OF resolved] main_supervise_def after_def
          same_processes_def)
  qed
qed

theorem daemon_without_password_is_fatal_witness:
  "snd (main (with_settings daemon_settings linux) home_world) = Fatal PasswordRequired \<and>
   children (fst (main (with_settings daemon_settings linux) home_world)) = []"
proof -
  let ?s = "with_settings daemon_settings linux"
  have "\<exists>v. snd (main_resolve ?s home_world) = Next v \<and> Daemon (Config (opts v)) \<and>
          Password (opts v) = ''''"
    by (simp add: run_defs with_settings_def daemon_settings_def home_world_def)
  then obtain v where v: "snd (main_resolve ?s home_world) = Next v"
    and d: "Daemon (Config (opts v))" and e: "Password (opts v) = ''''"
    by blast
  from v have r: "main_resolve ?s home_world = (fst (main_resolve ?s home_world), Next v)"
    by (cases "main_resolve ?s home_world") simp
  have f: "Getenv home_world ''__GOF5_DAEMONIZED'' \<noteq> ''1''"
    by (simp add: run_defs with_settings_def daemon_settings_def home_world_def)
  have p: "\<exists>w2 x. main_pid ?s (fst (main_resolve ?s home_world)) = (w2, Next x)"
    by (simp add: run_defs with_settings_def daemon_settings_def home_world_def)
  have c: "children home_world = []"
    by (simp add: run_defs with_settings_def daemon_settings_def home_world_def)
  from daemon_without_password_is_fatal [OF r d f e] p c show ?thesis
    by auto
qed


text \<open>
  C1, at failing inputs. A daemon child whose environment holds the handed-over password
  \<^verbatim>\<open>hunter2\<close> reads it into \<^verbatim>\<open>opts.Password\<close> and clears the variable, but the flag
  definitions that follow store their defaults in the same variables: the engine is
  called with an empty password. In the \<^verbatim>\<open>--remove-password-file\<close> scenario the parent
  hands \<^verbatim>\<open>secret\<close> over and starts the child; the child reads the password file named
  on its command line again, the file is gone, and the child ends in \<^verbatim>\<open>fatal\<close>.
\<close>

theorem handoff_password_overwritten:
  "Getenv handoff_world ''__GOF5_PASSWORD'' = ''hunter2'' \<and>
   snd (main linux handoff_world) = Finished \<and>
   map Password (connected (trace (fst (main linux handoff_world)))) = [''''] \<and>
   Getenv (fst (main linux handoff_world)) ''__GOF5_PASSWORD'' = '''' \<and>
   map (\<lambda>p. proc_env p ''__GOF5_PASSWORD'') (children (fst (main daemon_parent secret_world))) =
     [Some ''secret''] \<and>
   map (\<lambda>p. snd (run_child daemon_parent 4243 (fst (main daemon_parent secret_world)) p))
     (children (fst (main daemon_parent secret_world))) =
     [Fatal (PasswordFileUnreadable ''no such file or directory'')]"
  by (simp add: run_defs handoff_world_def daemon_parent_def run_child_def
      with_args_def with_settings_def daemon_settings_def secret_world_def Itoa.simps)

text \<open>
  C2, at a failing input. \<^verbatim>\<open>daemonize\<close> never returns a log file (it returns an error
  or leaves with \<^verbatim>\<open>os.Exit(0)\<close>), so the rewrite of lines 219 to 222, whose failure
  is a warning, is never reached. The daemon child is a new run of \<^verbatim>\<open>main\<close>: it writes
  the PID file at line 182, where a failure is fatal, and the engine is never called.
\<close>

theorem child_pid_write_failure_fatal:
  "(\<forall>s w logPath logFile. snd (daemonize s w logPath) \<noteq> Returns (Inr logFile)) \<and>
   Getenv handoff_world ''__GOF5_DAEMONIZED'' = ''1'' \<and>
   snd (main pid_write_denied handoff_world) = Fatal (PIDWriteFailed ''permission denied'') \<and>
   connected (trace (fst (main pid_write_denied handoff_world))) = []"
  by (simp add: daemonize_never_returns_log_file) (simp add: run_defs pid_write_denied_def handoff_world_def Itoa.simps)

text \<open>
  C3, at a failing input. The PID file is written, the engine returns an error, and
  \<^verbatim>\<open>fatal\<close> leaves with \<^verbatim>\<open>os.Exit\<close>: the deferred removal does not run and the PID
  file is still there when the process has ended.
\<close>

theorem stale_pid_after_fatal:
  "snd (main connect_refused world0) = Fatal (ConnectFailed ''connection refused'') \<and>
   fs (fst (main connect_refused world0)) ''/tmp/gof5/alice.pid'' = Some (File ''4242'')"
  by (simp add: run_defs connect_refused_def Itoa.simps)

lemma after_Next_iff:
  "after m f = (w', Next y) \<longleftrightarrow> (\<exists>w1 x. m = (w1, Next x) \<and> f w1 x = (w', Next y))"
  by (cases m) (auto simp: after_def split: step.splits)

lemma fatal_not_Next [simp]: "fatal s w err \<noteq> (w', Next x)"
  by (simp add: fatal_def)

lemma fs_fatal [simp]: "fs (fst (fatal s w err)) = fs w"
  by (simp add: fatal_def emit_def Printf_def)

lemma flag_Parse_scenario:
  "flag_Parse s [''--password-file'', ''/tmp/p'', ''--remove-password-file''] v =
     Inr (v\<lparr>passwordFile := ''/tmp/p'', removePassFile := True\<rparr>, [])"
  by (simp add: flag_Set_def split_value_def bool_flags_def string_flags_def int_flags_def
      ParseBool_def Let_def)

lemma main_config_Next:
  assumes "main_config s w (v, rest) = (w1, Next v1)"
  shows "\<exists>o1 cfg. (case rest of [] \<Rightarrow> Inr (opts v) | url # others \<Rightarrow> UrlHandlerF5Vpn s (opts v) url) = Inr o1 \<and>
           ReadConfig s (Options.Debug o1) (ConfigPath o1) w = (w1, Return cfg) \<and>
           v1 = v\<lparr>opts := o1\<lparr>Config := cfg\<rparr>\<rparr>"
  using assms
  by (auto simp: main_config_def split: if_splits option.splits sum.splits prod.splits res.splits)

lemma main_pid_Next:
  assumes "main_pid s w = (w2, Next (usr, pidPath))"
  shows "Current s = Inr usr \<and> pidPath = Join s [''/tmp'', ''gof5'', user.Username usr @ ''.pid''] \<and>
         writePIDFile s w pidPath = (w2, None)"
  using assms
  by (auto simp: main_pid_def Let_def split: sum.splits prod.splits option.splits)

lemma writePIDFile_None:
  assumes "writePIDFile s w pidPath = (w2, None)"
  shows "fs w2 pidPath = Some (File (Itoa (Getpid s))) \<and>
         (\<forall>p. fs w p \<noteq> None \<longrightarrow> fs w2 p \<noteq> None)"
  using assms
  by (auto simp: writePIDFile_def MkdirAll_def WriteFile_def
      split: prod.splits option.splits node.splits if_splits)

lemma TrimSpace_secret: "TrimSpace (''secret'' @ [CHR 0x0A]) = ''secret''"
  by (simp add: TrimSpace_def isSpace_def)

lemma daemonize_fs:
  "p \<noteq> logPath \<Longrightarrow> p \<noteq> Dir s logPath \<Longrightarrow> fs (fst (daemonize s w logPath)) p = fs w p"
  by (auto simp: daemonize_def MkdirAll_def OpenFile_def
      split: prod.splits option.splits node.splits sum.splits if_splits)

lemma daemonize_Exits:
  assumes "daemonize s w logPath = (w', Exits n)"
  shows "n = 0 \<and> children w' =
           children w @ [\<lparr>proc_args = Args s, proc_env = environ w, proc_stderr = logPath\<rparr>]"
  using assms
  by (auto simp: daemonize_def MkdirAll_def OpenFile_def
      split: prod.splits option.splits node.splits sum.splits if_splits)

lemma main_resolve_scenario:
  assumes args: "Args s = [''--password-file'', ''/tmp/p'', ''--remove-password-file'']"
    and foreground: "Getenv w ''__GOF5_DAEMONIZED'' \<noteq> ''1''"
    and pfile: "fs w ''/tmp/p'' = Some (File (''secret'' @ [CHR 0x0A]))"
    and readable: "fault s OpReadFile ''/tmp/p'' = None"
    and resolved: "main_resolve s w = (w1, Next v)"
  shows "Password (opts v) = ''secret'' \<and> passwordFile v = ''/tmp/p'' \<and> removePassFile v \<and>
         logFilePath v = '''' \<and> same_processes w w1 \<and> fs w1 ''/tmp/p'' \<noteq> None"
proof -
  let ?v0 = "(define_flags zeroVars)\<lparr>passwordFile := ''/tmp/p'', removePassFile := True\<rparr>"
  have nv: "\<not> version (define_flags zeroVars)"
    by (simp add: define_flags_def)
  have parse: "main_parse s w = (w, Next (?v0, []))"
    by (simp add: main_parse_def daemon_child_entry_foreground [OF foreground] args
        flag_Parse_scenario nv del: flag_Parse.simps)
  from resolved obtain wc vc where
    config: "main_config s w (?v0, []) = (wc, Next vc)" and
    password: "main_password s wc vc = (w1, Next v)"
    by (auto simp: main_resolve_def after_Next_iff parse)
  from main_config_Next [OF config] obtain cfg where
    vc: "vc = ?v0\<lparr>opts := (opts ?v0)\<lparr>Config := cfg\<rparr>\<rparr>"
    by auto
  have "keeps_files w wc"
    using kf_main_config [OF keeps_files_refl, of w s "(?v0, [])"] config by simp
  with pfile have filec: "fs wc ''/tmp/p'' = Some (File (''secret'' @ [CHR 0x0A]))"
    by (simp add: keeps_files_def)
  have spc: "same_processes w wc"
    using sp_main_config [OF same_processes_refl, of w s "(?v0, [])"] config by simp
  have read: "ReadFile s wc ''/tmp/p'' = Inr (''secret'' @ [CHR 0x0A])"
    using filec readable by (simp add: ReadFile_def)
  from password vc read have "w1 = wc" and
    v: "v = vc\<lparr>opts := (opts vc)\<lparr>Password := TrimSpace (''secret'' @ [CHR 0x0A])\<rparr>\<rparr>"
    by (auto simp: main_password_def define_flags_def)
  with vc spc filec TrimSpace_secret show ?thesis
    by (simp add: define_flags_def)
qed

text \<open>
  C5 as it is written fails: \<^verbatim>\<open>main\<close> defines no flag \<^verbatim>\<open>daemon\<close> (lines 113 to 128),
  so package flag rejects the command line before anything else happens; the password
  file is untouched and no process is started.
\<close>

theorem daemon_flag_not_defined:
  "snd (main daemon_flag_parent secret_world) = FlagExit (NotDefined ''daemon'') \<and>
   fs (fst (main daemon_flag_parent secret_world)) ''/tmp/p'' = Some (File (''secret'' @ [CHR 0x0A])) \<and>
   children (fst (main daemon_flag_parent secret_world)) = []"
  by (simp add: run_defs daemon_flag_parent_def
      with_args_def with_settings_def daemon_settings_def secret_world_def)

text \<open>
  C5, amended. Daemon mode is a setting of the configuration. An invocation with
  \<^verbatim>\<open>--password-file /tmp/p --remove-password-file\<close> that is not a daemon child, whose
  configuration sets daemon mode, where the file holds \<^verbatim>\<open>secret\<close> and a line feed and
  can be read and removed, and that gets as far as the daemon block (the configuration
  resolved, the PID file written), resolves the password to \<^verbatim>\<open>secret\<close>; when \<^verbatim>\<open>main\<close>
  has ended the file \<^verbatim>\<open>/tmp/p\<close> no longer exists, and if it ended with the parent's
  exit status 0 exactly one process was started, with the password in its environment.
  The log file and its directory are assumed to be other paths than \<^verbatim>\<open>/tmp/p\<close>.
\<close>

theorem password_file_removed_before_start:
  assumes args: "Args s = [''--password-file'', ''/tmp/p'', ''--remove-password-file'']"
    and foreground: "Getenv w ''__GOF5_DAEMONIZED'' \<noteq> ''1''"
    and pfile: "fs w ''/tmp/p'' = Some (File (''secret'' @ [CHR 0x0A]))"
    and readable: "fault s OpReadFile ''/tmp/p'' = None"
    and removable: "fault s OpRemove ''/tmp/p'' = None"
    and resolved: "main_resolve s w = (w1, Next v)"
    and daemon: "Daemon (Config (opts v))"
    and pid: "main_pid s w1 = (w2, Next (usr, pidPath))"
    and log: "Join s [''/tmp'', ''gof5'', user.Username usr @ ''.log''] \<noteq> ''/tmp/p''"
      "Dir s (Join s [''/tmp'', ''gof5'', user.Username usr @ ''.log'']) \<noteq> ''/tmp/p''"
  shows "Password (opts v) = ''secret'' \<and>
         fs (fst (main s w)) ''/tmp/p'' = None \<and>
         (snd (main s w) = Exited 0 \<longrightarrow>
            (\<exists>p. children (fst (main s w)) = children w @ [p] \<and> proc_args p = Args s \<and>
                 proc_env p ''__GOF5_PASSWORD'' = Some ''secret'' \<and>
                 proc_env p ''__GOF5_DAEMONIZED'' = Some ''1''))"
proof -
  let ?logPath = "Join s [''/tmp'', ''gof5'', user.Username usr @ ''.log'']"
  from main_resolve_scenario [OF args foreground pfile readable resolved] have
    pw: "Password (opts v) = ''secret''" and pf: "passwordFile v = ''/tmp/p''" and
    rm: "removePassFile v" and lf: "logFilePath v = ''''" and
    sp1: "same_processes w w1" and f1: "fs w1 ''/tmp/p'' \<noteq> None"
    by auto
  have wr: "writePIDFile s w1 pidPath = (w2, None)"
    by (rule main_pid_Next [OF pid, THEN conjunct2, THEN conjunct2])
  from writePIDFile_None [OF wr] f1 have f2: "fs w2 ''/tmp/p'' \<noteq> None" by simp
  have sp2: "same_processes w w2"
    using sp_main_pid [OF sp1, of s] pid by simp
  have env2: "Getenv w2 ''__GOF5_DAEMONIZED'' \<noteq> ''1''"
    using foreground same_processes_Getenv [OF sp2] by simp
  define w3 where "w3 = fst (Remove s (Setenv (Setenv w2 ''__GOF5_PASSWORD'' ''secret'')
                                ''__GOF5_DAEMONIZED'' ''1'') ''/tmp/p'')"
  have removed: "Remove s (Setenv (Setenv w2 ''__GOF5_PASSWORD'' ''secret'')
                    ''__GOF5_DAEMONIZED'' ''1'') ''/tmp/p'' = (w3, None)"
    using f2 removable by (auto simp: w3_def Remove_def Setenv_def)
  have w3: "fs w3 ''/tmp/p'' = None \<and> children w3 = children w \<and>
            environ w3 ''__GOF5_PASSWORD'' = Some ''secret'' \<and>
            environ w3 ''__GOF5_DAEMONIZED'' = Some ''1''"
    using f2 removable sp2 by (auto simp: w3_def Remove_def Setenv_def same_processes_def)
  have daemon_eq: "main_daemon s v usr pidPath w2 =
      (case daemonize s w3 ?logPath of
         (w4, Exits n) \<Rightarrow> (w4, Stop (Exited n))
       | (w4, Returns (Inl err)) \<Rightarrow> fatal s w4 err
       | (w4, Returns (Inr logFile)) \<Rightarrow>
           (case writePIDFile s (emit (emit w4 (SetOutput logFile)) (Dup2 logFile)) pidPath of
              (w6, Some err) \<Rightarrow> (Printf w6 (WarnRewritePID err), Next ())
            | (w6, None) \<Rightarrow> (w6, Next ())))"
    using daemon env2 pw pf rm lf removed by (simp add: main_daemon_def)
  have main_eq: "main s w =
      (case after (main_daemon s v usr pidPath w2) (\<lambda>w u. main_connect s v w) of
         (w', Next u) \<Rightarrow> (removePIDFile s w' pidPath, Finished)
       | (w', Stop out) \<Rightarrow> (w', out))"
    by (simp add: main_after_resolve [OF resolved] main_supervise_def pid after_def
        split: prod.splits step.splits)
  obtain w4 r where dz: "daemonize s w3 ?logPath = (w4, r)"
    by (cases "daemonize s w3 ?logPath") auto
  have f4: "fs w4 ''/tmp/p'' = None"
    using daemonize_fs [of "''/tmp/p''" ?logPath s w3] log dz w3 by auto
  show ?thesis
  proof (cases r)
    case (Exits n)
    from daemonize_Exits [OF dz [unfolded Exits]] w3 f4 pw show ?thesis
      by (simp add: main_eq daemon_eq dz Exits after_def)
  next
    case (Returns e)
    then obtain err where e: "e = Inl err"
      using daemonize_never_returns_log_file [of s w3 ?logPath] dz by (cases e) auto
    obtain w5 where ft: "(fatal s w4 err :: world \<times> unit step) = (w5, Stop (Fatal err))"
      by (cases "fatal s w4 err :: world \<times> unit step") (auto simp: fatal_def split: if_splits)
    have "fs w5 = fs w4"
      using fs_fatal [of s w4 err] ft by (metis fst_conv)
    with f4 pw show ?thesis
      by (simp add: main_eq daemon_eq dz Returns e ft after_def)
  qed
qed

theorem password_file_removed_before_start_witness:
  "snd (main daemon_parent secret_world) = Exited 0 \<and>
   fs (fst (main daemon_parent secret_world)) ''/tmp/p'' = None \<and>
   map (\<lambda>p. proc_env p ''__GOF5_PASSWORD'') (children (fst (main daemon_parent secret_world))) =
     [Some ''secret'']"
proof -
  let ?s = daemon_parent and ?w = secret_world
  have args: "Args ?s = [''--password-file'', ''/tmp/p'', ''--remove-password-file'']"
    by (simp add: daemon_parent_def with_args_def with_settings_def daemon_settings_def secret_world_def)
  have foreground: "Getenv ?w ''__GOF5_DAEMONIZED'' \<noteq> ''1''"
    by (simp add: run_defs daemon_parent_def with_args_def with_settings_def daemon_settings_def secret_world_def)
  have pfile: "fs ?w ''/tmp/p'' = Some (File (''secret'' @ [CHR 0x0A]))"
    by (simp add: run_defs daemon_parent_def with_args_def with_settings_def daemon_settings_def secret_world_def)
  have readable: "fault ?s OpReadFile ''/tmp/p'' = None"
    and removable: "fault ?s OpRemove ''/tmp/p'' = None"
    by (simp_all add: run_defs daemon_parent_def with_args_def with_settings_def daemon_settings_def secret_world_def)
  have "\<exists>v. snd (main_resolve ?s ?w) = Next v \<and> Daemon (Config (opts v))"
    by (simp add: run_defs daemon_parent_def with_args_def with_settings_def daemon_settings_def secret_world_def)
  then obtain v where v: "snd (main_resolve ?s ?w) = Next v" and daemon: "Daemon (Config (opts v))"
    by blast
  from v have resolved: "main_resolve ?s ?w = (fst (main_resolve ?s ?w), Next v)"
    by (cases "main_resolve ?s ?w") simp
  have "snd (main_pid ?s (fst (main_resolve ?s ?w))) = Next (alice, ''/tmp/gof5/alice.pid'')"
    by (simp add: run_defs daemon_parent_def with_args_def with_settings_def daemon_settings_def secret_world_def)
  then have pid: "main_pid ?s (fst (main_resolve ?s ?w)) =
      (fst (main_pid ?s (fst (main_resolve ?s ?w))), Next (alice, ''/tmp/gof5/alice.pid''))"
    by (cases "main_pid ?s (fst (main_resolve ?s ?w))") simp
  have log: "Join ?s [''/tmp'', ''gof5'', user.Username alice @ ''.log''] \<noteq> ''/tmp/p''"
    "Dir ?s (Join ?s [''/tmp'', ''gof5'', user.Username alice @ ''.log'']) \<noteq> ''/tmp/p''"
    by (simp_all add: run_defs daemon_parent_def with_args_def with_settings_def daemon_settings_def secret_world_def)
  have exit: "snd (main ?s ?w) = Exited 0"
    by (simp add: run_defs daemon_parent_def with_args_def with_settings_def daemon_settings_def secret_world_def Itoa.simps)
  have none: "children ?w = []"
    by (simp add: run_defs daemon_parent_def with_args_def with_settings_def daemon_settings_def secret_world_def)
  from password_file_removed_before_start
    [OF args foreground pfile readable removable resolved daemon pid log] exit none
  show ?thesis by auto
qed

















section \<open>The failing runs in general\<close>

text \<open>
  What the parsed variables are does not depend on the environment: the password that
  the daemon child has read from the hand-over variable, and its cleared
  \<^verbatim>\<open>passwordFile\<close>, are overwritten when the flags are defined.
\<close>

lemma define_flags_after_entry:
  "define_flags (snd (daemon_child_entry w v)) = define_flags v"
  by (simp add: daemon_child_entry_def define_flags_def Let_def)

lemma main_parse_ignores_handoff:
  "snd (main_parse s w) =
     (case flag_Parse s (Args s) (define_flags zeroVars) of
        Inl e \<Rightarrow> Stop (FlagExit e)
      | Inr (v, rest) \<Rightarrow> if version v then Stop (Exited 0) else Next (v, rest))"
  using define_flags_after_entry [of w zeroVars]
  by (cases "daemon_child_entry w zeroVars")
    (simp add: main_parse_def split: sum.splits prod.splits)

text \<open>A daemon child skips the daemon block, and a failed write of the PID file at line
  182 ends any run, the child's too, in \<^verbatim>\<open>fatal\<close>.\<close>

lemma daemon_child_skips_daemon_block:
  "Getenv w ''__GOF5_DAEMONIZED'' = ''1'' \<Longrightarrow> main_daemon s v usr pidPath w = (w, Next ())"
  by (simp add: main_daemon_def)

lemma main_pid_write_failure:
  assumes "Current s = Inr usr"
    and "writePIDFile s w (Join s [''/tmp'', ''gof5'', user.Username usr @ ''.pid'']) = (w', Some err)"
  shows "snd (main_pid s w) = Stop (Fatal err)"
  using assms by (simp add: main_pid_def fatal_def)

text \<open>In the foreground, an error of the VPN engine ends the run in \<^verbatim>\<open>fatal\<close> with the
  PID file still in place.\<close>

lemma connect_failure_leaves_pid_file:
  assumes resolved: "main_resolve s w = (w1, Next v)"
    and pid: "main_pid s w1 = (w2, Next (usr, pidPath))"
    and foreground: "\<not> Daemon (Config (opts v))"
    and refused: "Connect s (opts v) = Some cause"
  shows "snd (main s w) = Fatal (ConnectFailed cause) \<and>
         fs (fst (main s w)) pidPath = Some (File (Itoa (Getpid s)))"
proof -
  have wr: "writePIDFile s w1 pidPath = (w2, None)"
    by (rule main_pid_Next [OF pid, THEN conjunct2, THEN conjunct2])
  have marker: "fs w2 pidPath = Some (File (Itoa (Getpid s)))"
    using writePIDFile_None [OF wr] by simp
  have d: "main_daemon s v usr pidPath w2 = (w2, Next ())"
    using foreground by (simp add: main_daemon_def)
  have c: "main_connect s v w2 = fatal s (emit w2 (Connected (opts v))) (ConnectFailed cause)"
    using refused by (simp add: main_connect_def)
  obtain w3 where f: "(fatal s (emit w2 (Connected (opts v))) (ConnectFailed cause) :: world \<times> unit step) =
      (w3, Stop (Fatal (ConnectFailed cause)))"
    by (cases "fatal s (emit w2 (Connected (opts v))) (ConnectFailed cause) :: world \<times> unit step")
      (auto simp: fatal_def split: if_splits)
  have "fs (fst (fatal s (emit w2 (Connected (opts v))) (ConnectFailed cause) :: world \<times> unit step)) =
      fs (emit w2 (Connected (opts v)))"
    by (rule fs_fatal)
  then have "fs w3 = fs w2"
    unfolding f by (simp add: emit_def)
  with marker f show ?thesis
    by (simp add: main_after_resolve [OF resolved] main_supervise_def pid d c after_def)
qed

end
